theory Spec2Isabelle
  imports Complex_Main
begin

section \<open>JavaScript strings and numbers used by the scripts\<close>

text \<open>
  A JavaScript string is modelled as a \<^typ>\<open>string\<close>: the list of its code units, each
  below 256. Of the characters that \<^verbatim>\<open>String.prototype.trim\<close> and the conversion
  \<^verbatim>\<open>Number(s)\<close> strip, those in this range are TAB, LF, VT, FF, CR, SPACE and NBSP.
\<close>

definition is_ws :: "char \<Rightarrow> bool" where
  "is_ws c \<longleftrightarrow> (of_char c :: nat) \<in> {9, 10, 11, 12, 13, 32, 160}"

definition trim :: "string \<Rightarrow> string" where
  "trim s = rev (dropWhile is_ws (rev (dropWhile is_ws s)))"

text \<open>
  \<^verbatim>\<open>s.split(c)\<close> for a separator of one character: the fields between the separators,
  empty fields kept, so the result has one element more than \<^verbatim>\<open>s\<close> has separators
  and is never the empty array.
\<close>

fun split_on :: "char \<Rightarrow> string \<Rightarrow> string list" where
  "split_on c [] = [[]]"
| "split_on c (x # xs) =
     (if x = c then [] # split_on c xs
      else (case split_on c xs of
              [] \<Rightarrow> [[x]]
            | p # ps \<Rightarrow> (x # p) # ps))"

text \<open>
  A JavaScript Number, as far as this program observes it: the value \<^verbatim>\<open>NaN\<close>, the two
  infinities, or a finite value. \<open>Fin r\<close> carries the mathematical value \<open>r\<close> of the
  numeric literal that was converted; the rounding of \<open>r\<close> to an IEEE-754 double (to
  nearest, ties to even) is applied where the program compares the number, in
  \<open>strict_eq_3\<close> and \<open>ge_11\<close> below. Negative zero is \<open>Fin 0\<close>: no comparison of the
  program tells the two zeros apart.
\<close>

datatype jsnum = NaN | PInf | NInf | Fin rat

datatype jsval = Undefined | Num jsnum

definition digit_of :: "char \<Rightarrow> nat" where
  "digit_of c =
     (let n = (of_char c :: nat)
      in if 48 \<le> n \<and> n \<le> 57 then n - 48
         else if 97 \<le> n \<and> n \<le> 102 then n - 87
         else if 65 \<le> n \<and> n \<le> 70 then n - 55
         else 36)"

definition is_digit :: "nat \<Rightarrow> char \<Rightarrow> bool" where
  "is_digit b c \<longleftrightarrow> digit_of c < b"

definition digits_val :: "nat \<Rightarrow> string \<Rightarrow> nat" where
  "digits_val b ds = foldl (\<lambda>acc c. acc * b + digit_of c) 0 ds"

definition pow10 :: "int \<Rightarrow> rat" where
  "pow10 k = (if 0 \<le> k then 10 ^ nat k else 1 / 10 ^ nat (- k))"

text \<open>The prefixes \<^verbatim>\<open>0x\<close>, \<^verbatim>\<open>0o\<close>, \<^verbatim>\<open>0b\<close> (either case) of a non-decimal integer literal.\<close>

definition radix_literal :: "string \<Rightarrow> (nat \<times> string) option" where
  "radix_literal t =
     (case t of
        z # x # ds \<Rightarrow>
          if z \<noteq> CHR ''0'' then None
          else if x = CHR ''x'' \<or> x = CHR ''X'' then Some (16, ds)
          else if x = CHR ''o'' \<or> x = CHR ''O'' then Some (8, ds)
          else if x = CHR ''b'' \<or> x = CHR ''B'' then Some (2, ds)
          else None
      | _ \<Rightarrow> None)"

definition split_sign :: "string \<Rightarrow> int \<times> string" where
  "split_sign t =
     (case t of
        [] \<Rightarrow> (1, [])
      | c # r \<Rightarrow> if c = CHR ''+'' then (1, r) else if c = CHR ''-'' then (- 1, r) else (1, t))"

text \<open>The exponent part of a decimal literal: nothing, or \<^verbatim>\<open>e\<close>, an optional sign, digits.\<close>

definition exponent_part :: "string \<Rightarrow> int option" where
  "exponent_part t =
     (case t of
        [] \<Rightarrow> Some 0
      | c # r \<Rightarrow>
          if c = CHR ''e'' \<or> c = CHR ''E'' then
            (case split_sign r of
               (sg, ds) \<Rightarrow>
                 if ds \<noteq> [] \<and> list_all (is_digit 10) ds
                 then Some (sg * int (digits_val 10 ds)) else None)
          else None)"

text \<open>
  An unsigned decimal literal: digits, an optional dot with more digits, an optional
  exponent; at least one digit before or after the dot.
\<close>

definition unsigned_decimal :: "string \<Rightarrow> rat option" where
  "unsigned_decimal u =
     (let ip = takeWhile (is_digit 10) u;
          r1 = dropWhile (is_digit 10) u;
          fp = (case r1 of
                  [] \<Rightarrow> []
                | c # r \<Rightarrow> if c = CHR ''.'' then takeWhile (is_digit 10) r else []);
          r2 = (case r1 of
                  [] \<Rightarrow> []
                | c # r \<Rightarrow> if c = CHR ''.'' then dropWhile (is_digit 10) r else r1)
      in if ip = [] \<and> fp = [] then None
         else (case exponent_part r2 of
                 None \<Rightarrow> None
               | Some e \<Rightarrow>
                   Some (of_nat (digits_val 10 (ip @ fp)) * pow10 (e - int (length fp)))))"

text \<open>
  \<^verbatim>\<open>Number(s)\<close> for a string \<^verbatim>\<open>s\<close>: surrounding white space is dropped; the empty
  string is 0; then a non-decimal integer literal, or an optionally signed
  \<^verbatim>\<open>Infinity\<close> or decimal literal; anything else is \<^verbatim>\<open>NaN\<close>.
\<close>

definition Number :: "string \<Rightarrow> jsnum" where
  "Number s =
     (let t = trim s
      in if t = [] then Fin 0
         else (case radix_literal t of
                 Some (b, ds) \<Rightarrow>
                   if ds \<noteq> [] \<and> list_all (is_digit b) ds
                   then Fin (of_nat (digits_val b ds)) else NaN
               | None \<Rightarrow>
                   (case split_sign t of
                      (sg, u) \<Rightarrow>
                        if u = ''Infinity'' then (if sg = 1 then PInf else NInf)
                        else (case unsigned_decimal u of
                                None \<Rightarrow> NaN
                              | Some r \<Rightarrow> Fin (of_int sg * r)))))"

text \<open>
  \<^verbatim>\<open>x === 3\<close>: true exactly when \<^verbatim>\<open>x\<close> is the Number 3. The doubles next to 3 are
  \<open>3 - 2\<^sup>-\<^sup>5\<^sup>1\<close> and \<open>3 + 2\<^sup>-\<^sup>5\<^sup>1\<close> and the significand of 3 is even, so a literal
  converts to 3 exactly when its value lies within \<open>2\<^sup>-\<^sup>5\<^sup>2\<close> of 3.
\<close>

fun strict_eq_3 :: "jsval \<Rightarrow> bool" where
  "strict_eq_3 (Num (Fin r)) \<longleftrightarrow> \<bar>r - 3\<bar> \<le> 1 / 2 ^ 52"
| "strict_eq_3 _ \<longleftrightarrow> False"

text \<open>
  \<^verbatim>\<open>x >= 11\<close>: \<^verbatim>\<open>undefined\<close> converts to \<^verbatim>\<open>NaN\<close>, and every comparison with
  \<^verbatim>\<open>NaN\<close> is false. The double below 11 is \<open>11 - 2\<^sup>-\<^sup>4\<^sup>9\<close> and the significand of 11
  is even, so a literal converts to a double of at least 11 exactly when its value is at
  least \<open>11 - 2\<^sup>-\<^sup>5\<^sup>0\<close>.
\<close>

fun ge_11 :: "jsval \<Rightarrow> bool" where
  "ge_11 (Num (Fin r)) \<longleftrightarrow> 11 - 1 / 2 ^ 50 \<le> r"
| "ge_11 (Num PInf) \<longleftrightarrow> True"
| "ge_11 _ \<longleftrightarrow> False"

text \<open>Reading element \<open>i\<close> of an array, as destructuring does: \<^verbatim>\<open>undefined\<close> past the end.\<close>

definition element :: "jsnum list \<Rightarrow> nat \<Rightarrow> jsval" where
  "element xs i = (if i < length xs then Num (xs ! i) else Undefined)"

section \<open>The provisioner: scripts/postinstall.js\<close>

text \<open>
  What \<^verbatim>\<open>spawnSync\<close> returns, as far as the script reads it: \<open>status\<close> is the child's
  exit code, or \<^verbatim>\<open>null\<close> when the child was killed by a signal or never started;
  \<open>stdout\<close> is the captured output, or \<^verbatim>\<open>null\<close> when there is none; \<open>error\<close> says
  whether \<^verbatim>\<open>res.error\<close> is set (the child could not be started).
\<close>

record spawn_result =
  status :: "int option"
  stdout :: "string option"
  error :: bool

text \<open>
  The environment of one run of the provisioner: the platform, the installation root
  (\<^verbatim>\<open>path.resolve(__dirname, '..')\<close>), what each child process does when it is run, which
  paths exist, and whether creating a directory succeeds. Every command line and every
  path is used at most once in a run, so functions describe every possible environment.
\<close>

record world =
  win32 :: bool
  ROOT :: string
  spawnSync :: "string \<Rightarrow> string list \<Rightarrow> spawn_result"
  existsSync :: "string \<Rightarrow> bool"
  mkdirSync_ok :: "string \<Rightarrow> bool"

text \<open>What a run does, in order: the child processes, the directories, the messages.\<close>

datatype event =
    Capture string "string list"
  | Run string "string list" "string option"
  | Spawn string "string list"
  | MkdirSync string
  | ConsoleLog string
  | ConsoleError string
  | Kill string

text \<open>
  How the process ends: \<^verbatim>\<open>process.exit(n)\<close> or the end of the script (status 0), an
  uncaught exception, or death by a signal.
\<close>

datatype outcome = Exited int | Uncaught | KilledBy string

text \<open>
  \<^verbatim>\<open>path.join(a, b)\<close> for a normalised absolute directory \<^verbatim>\<open>a\<close> and a plain name
  \<^verbatim>\<open>b\<close>, with the separator of the platform.
\<close>

definition sep :: "bool \<Rightarrow> char" where
  "sep win = (if win then CHR 0x5C else CHR ''/'')"

definition path_join :: "bool \<Rightarrow> string \<Rightarrow> string \<Rightarrow> string" where
  "path_join win a b = (if a \<noteq> [] \<and> last a = sep win then a @ b else a @ [sep win] @ b)"

definition VENDOR :: "'a world_scheme \<Rightarrow> string" where
  "VENDOR w = path_join (win32 w) (ROOT w) ''vendor''"

definition VENV :: "'a world_scheme \<Rightarrow> string" where
  "VENV w = path_join (win32 w) (VENDOR w) ''venv''"

definition run :: "world \<Rightarrow> string \<Rightarrow> string list \<Rightarrow> int" where
  "run w cmd args =
     (let res = spawnSync w cmd args
      in case status res of
           Some n \<Rightarrow> n
         | None \<Rightarrow> if error res then 1 else 0)"

definition runCapture :: "world \<Rightarrow> string \<Rightarrow> string list \<Rightarrow> spawn_result" where
  "runCapture w cmd args = spawnSync w cmd args"

definition candidates :: "bool \<Rightarrow> string list" where
  "candidates win =
     (if win then [''py -3.11'', ''py -3'', ''python3'', ''python'']
      else [''python3.12'', ''python3.11'', ''python3'', ''python''])"

definition probe_script :: string where
  "probe_script = ''import sys; print(\"%d.%d\"%sys.version_info[:2])''"

text \<open>
  What the probe script prints for an interpreter of version \<open>major.minor\<close>: Python's
  \<^verbatim>\<open>"%d.%d"\<close> of the two numbers, which are not negative, written in decimal without
  leading zeros, and the line feed that \<^verbatim>\<open>print\<close> adds.
\<close>

definition digit_char :: "nat \<Rightarrow> char" where
  "digit_char d = ''0123456789'' ! d"

function decimal :: "nat \<Rightarrow> string" where
  "decimal n =
     (if n < 10 then [digit_char n]
      else decimal (n div 10) @ [digit_char (n mod 10)])"
  by pat_completeness auto
termination
  by (relation "measure id") auto

declare decimal.simps [simp del]

definition probe_output :: "nat \<Rightarrow> nat \<Rightarrow> string" where
  "probe_output major minor = decimal major @ ''.'' @ decimal minor @ [CHR 0x0A]"

definition probe_cmd :: "string \<Rightarrow> string" where
  "probe_cmd candidate = hd (split_on CHR '' '' candidate)"

definition probe_args :: "string \<Rightarrow> string list" where
  "probe_args candidate = drop 1 (split_on CHR '' '' candidate) @ [''-c'', probe_script]"

text \<open>
  The test on the trimmed output \<^verbatim>\<open>v\<close> of a probe: \<^verbatim>\<open>[maj, min] = v.split('.').map(Number)\<close>
  and \<^verbatim>\<open>maj === 3 && min >= 11\<close>.
\<close>

definition version_ok :: "string \<Rightarrow> bool" where
  "version_ok v =
     (let nums = map Number (split_on CHR ''.'' v);
          maj = element nums 0;
          min = element nums 1
      in strict_eq_3 maj \<and> ge_11 min)"

text \<open>
  The body of the loop's \<^verbatim>\<open>if\<close>: \<^verbatim>\<open>res.status === 0 && res.stdout\<close> (a captured output
  that is neither \<^verbatim>\<open>null\<close> nor empty), then the version test.
\<close>

definition accepts :: "spawn_result \<Rightarrow> bool" where
  "accepts res \<longleftrightarrow>
     status res = Some 0 \<and>
     (case stdout res of
        None \<Rightarrow> False
      | Some out \<Rightarrow> out \<noteq> [] \<and> version_ok (trim out))"

text \<open>
  One probe: \<^verbatim>\<open>runCapture(parts[0], parts.slice(1).concat(['-c', ...]))\<close>. The array
  \<^verbatim>\<open>parts\<close> is never empty, and for the candidates of the two lists its first element
  is a non-empty command, which \<^verbatim>\<open>spawnSync\<close> takes without throwing.
\<close>

definition probe :: "world \<Rightarrow> string \<Rightarrow> spawn_result" where
  "probe w candidate = runCapture w (probe_cmd candidate) (probe_args candidate)"

text \<open>
  The loop of \<^verbatim>\<open>findPython311Plus\<close> over the candidates that are left: the probes it
  runs, and the candidate it returns (\<open>None\<close> for \<^verbatim>\<open>null\<close>).
\<close>

fun find_loop :: "world \<Rightarrow> string list \<Rightarrow> event list \<times> string option" where
  "find_loop w [] = ([], None)"
| "find_loop w (candidate # rest) =
     (if accepts (probe w candidate)
      then ([Capture (probe_cmd candidate) (probe_args candidate)], Some candidate)
      else (case find_loop w rest of
              (evs, r) \<Rightarrow> (Capture (probe_cmd candidate) (probe_args candidate) # evs, r)))"

definition findPython311Plus :: "world \<Rightarrow> event list \<times> string option" where
  "findPython311Plus w = find_loop w (candidates (win32 w))"

text \<open>\<^verbatim>\<open>ensureDir(p)\<close>: what it does, and whether it returns (\<^verbatim>\<open>mkdirSync\<close> may throw).\<close>

definition ensureDir :: "world \<Rightarrow> string \<Rightarrow> event list \<times> bool" where
  "ensureDir w p =
     (if \<not> existsSync w p then ([MkdirSync p], mkdirSync_ok w p) else ([], True))"

definition venvPython :: "'a world_scheme \<Rightarrow> string" where
  "venvPython w =
     (if win32 w then path_join True (path_join True (VENV w) ''Scripts'') ''python.exe''
      else path_join False (path_join False (VENV w) ''bin'') ''python'')"

definition upgrade_args :: "string list" where
  "upgrade_args = [''-m'', ''pip'', ''install'', ''--upgrade'', ''pip'', ''setuptools'', ''wheel'']"

definition install_args :: "string list" where
  "install_args = [''-m'', ''pip'', ''install'', ''.'']"

definition create_cmd :: "string \<Rightarrow> string" where
  "create_cmd py = hd (split_on CHR '' '' py)"

definition create_args :: "world \<Rightarrow> string \<Rightarrow> string list" where
  "create_args w py = drop 1 (split_on CHR '' '' py) @ [''-m'', ''venv'', VENV w]"

text \<open>
  The child processes of steps 1, 3 and 4 of \<^verbatim>\<open>main\<close>: the creation of the environment
  by the interpreter found (no working directory given), the upgrade of the toolchain and
  the installation of the package by the environment's interpreter (both run in the root).
\<close>

definition create_event :: "world \<Rightarrow> string \<Rightarrow> event" where
  "create_event w py = Run (create_cmd py) (create_args w py) None"

definition upgrade_event :: "world \<Rightarrow> event" where
  "upgrade_event w = Run (venvPython w) upgrade_args (Some (ROOT w))"

definition install_event :: "world \<Rightarrow> event" where
  "install_event w = Run (venvPython w) install_args (Some (ROOT w))"

text \<open>Steps 3 and 4 of \<^verbatim>\<open>main\<close>: upgrade the toolchain, then install the package.\<close>

definition main_install :: "world \<Rightarrow> event list \<times> outcome" where
  "main_install w =
     (if run w (venvPython w) upgrade_args \<noteq> 0 then
        ([ConsoleLog ''[rql-py] Upgrading pip/setuptools/wheel...'',
          upgrade_event w,
          ConsoleError ''[rql-py] Failed to upgrade pip toolchain.''],
         Exited 1)
      else if run w (venvPython w) install_args \<noteq> 0 then
        ([ConsoleLog ''[rql-py] Upgrading pip/setuptools/wheel...'',
          upgrade_event w,
          ConsoleLog ''[rql-py] Installing Python package into venv...'',
          install_event w,
          ConsoleError ''[rql-py] pip install . failed.''],
         Exited 1)
      else
        ([ConsoleLog ''[rql-py] Upgrading pip/setuptools/wheel...'',
          upgrade_event w,
          ConsoleLog ''[rql-py] Installing Python package into venv...'',
          install_event w,
          ConsoleLog ''[rql-py] Install complete. You can now run: rql''],
         Exited 0))"

text \<open>Step 1 of \<^verbatim>\<open>main\<close> and what follows it: create the environment if it is missing.\<close>

definition main_venv :: "world \<Rightarrow> string \<Rightarrow> event list \<times> outcome" where
  "main_venv w py =
     (if \<not> existsSync w (VENV w) then
        (let st = run w (create_cmd py) (create_args w py)
         in if st \<noteq> 0 then
              ([ConsoleLog ''[rql-py] Creating virtual environment...'',
                create_event w py,
                ConsoleError ''[rql-py] Failed to create venv.''],
               Exited st)
            else
              (case main_install w of
                 (evs, out) \<Rightarrow>
                   ([ConsoleLog ''[rql-py] Creating virtual environment...'',
                     create_event w py] @ evs,
                    out)))
      else main_install w)"

text \<open>
  \<^verbatim>\<open>main\<close>: the events of the run and how the process ends. \<^verbatim>\<open>!py\<close> holds for
  \<^verbatim>\<open>null\<close> and for the empty string.
\<close>

definition main :: "world \<Rightarrow> event list \<times> outcome" where
  "main w =
     (case findPython311Plus w of
        (probes, found) \<Rightarrow>
          (case found of
             None \<Rightarrow>
               (probes @
                [ConsoleError ''[rql-py] Error: Python >= 3.11 not found.'',
                 ConsoleError ''[rql-py] Please install Python 3.11+ and re-run:'',
                 ConsoleError ''           npm rebuild -g rql-py''],
                Exited 1)
           | Some py \<Rightarrow>
               if py = [] then
                 (probes @
                  [ConsoleError ''[rql-py] Error: Python >= 3.11 not found.'',
                   ConsoleError ''[rql-py] Please install Python 3.11+ and re-run:'',
                   ConsoleError ''           npm rebuild -g rql-py''],
                  Exited 1)
               else
                 (case ensureDir w (VENDOR w) of
                    (dirs, returned) \<Rightarrow>
                      if \<not> returned then (probes @ dirs, Uncaught)
                      else (case main_venv w py of
                              (evs, out) \<Rightarrow> (probes @ dirs @ evs, out)))))"

section \<open>The launcher: bin/rql.js\<close>

text \<open>
  What becomes of the child that \<^verbatim>\<open>spawn\<close> starts: it cannot be started (the
  \<^verbatim>\<open>error\<close> event, which the script does not handle), or it ends and the \<^verbatim>\<open>exit\<close>
  event carries its exit code and the signal that ended it, each possibly \<^verbatim>\<open>null\<close>.
\<close>

datatype child_end = SpawnFailed | ChildExit "int option" "string option"

text \<open>
  The environment of one run of the launcher: that of the provisioner (platform, root,
  existing paths; the environment lies at the same path), the argument vector
  \<^verbatim>\<open>process.argv\<close>, what becomes of the child, and whether a signal that the launcher
  sends to itself ends the launcher (it does not when the runtime ignores or handles
  that signal, as Node.js does with \<^verbatim>\<open>SIGPIPE\<close>).
\<close>

record launch_world = world +
  argv :: "string list"
  child :: child_end
  kill_fatal :: "string \<Rightarrow> bool"

definition launcher_args :: "string list \<Rightarrow> string list" where
  "launcher_args av = [''-m'', ''rql''] @ drop 2 av"

text \<open>\<^verbatim>\<open>fail(msg)\<close>: two lines on the error stream, then \<^verbatim>\<open>process.exit(1)\<close>.\<close>

definition fail :: "string \<Rightarrow> event list \<times> outcome" where
  "fail msg =
     ([ConsoleError (''[rql-py] '' @ msg),
       ConsoleError ''[rql-py] Try reinstalling: npm rebuild -g rql-py''],
      Exited 1)"

text \<open>
  The handler of the child's \<^verbatim>\<open>exit\<close> event: \<^verbatim>\<open>if (signal) process.kill(process.pid, signal)\<close>,
  then \<^verbatim>\<open>process.exit(code ?? 0)\<close> if the launcher is still running.
\<close>

definition on_exit :: "launch_world \<Rightarrow> int option \<Rightarrow> string option \<Rightarrow> event list \<times> outcome" where
  "on_exit w code signal =
     (case signal of
        None \<Rightarrow> ([], Exited (case code of None \<Rightarrow> 0 | Some c \<Rightarrow> c))
      | Some sig \<Rightarrow>
          if sig = [] then ([], Exited (case code of None \<Rightarrow> 0 | Some c \<Rightarrow> c))
          else if kill_fatal w sig then ([Kill sig], KilledBy sig)
          else ([Kill sig], Exited (case code of None \<Rightarrow> 0 | Some c \<Rightarrow> c)))"

definition launcher :: "launch_world \<Rightarrow> event list \<times> outcome" where
  "launcher w =
     (if \<not> existsSync w (venvPython w) then
        fail ''Python venv not found. Was the postinstall step blocked?''
      else
        (case child w of
           SpawnFailed \<Rightarrow> ([Spawn (venvPython w) (launcher_args (argv w))], Uncaught)
         | ChildExit code signal \<Rightarrow>
             (case on_exit w code signal of
                (evs, out) \<Rightarrow> (Spawn (venvPython w) (launcher_args (argv w)) # evs, out))))"

section \<open>Example environments\<close>

text \<open>
  Results of a child: it ends with an exit code (and captured output, if any), or it
  cannot be started.
\<close>

definition exited :: "int \<Rightarrow> string option \<Rightarrow> spawn_result" where
  "exited n out = \<lparr>status = Some n, stdout = out, error = False\<rparr>"

definition not_started :: spawn_result where
  "not_started = \<lparr>status = None, stdout = None, error = True\<rparr>"

text \<open>
  Children given by a table: a probe (its last argument is the probe script) of a command
  in \<open>probes\<close> has the result listed there, of any other command it cannot be started;
  the upgrade step, the install step and the creation step have the results given.
\<close>

definition scripted ::
  "(string \<times> spawn_result) list \<Rightarrow> spawn_result \<Rightarrow> spawn_result \<Rightarrow> spawn_result \<Rightarrow>
   string \<Rightarrow> string list \<Rightarrow> spawn_result" where
  "scripted probes create upgrade install cmd args =
     (if args \<noteq> [] \<and> last args = probe_script then
        (case map_of probes cmd of None \<Rightarrow> not_started | Some res \<Rightarrow> res)
      else if args = upgrade_args then upgrade
      else if args = install_args then install
      else create)"

text \<open>A POSIX installation under \<^verbatim>\<open>/opt/rql-py\<close> where directories can be created.\<close>

definition posix_world ::
  "(string \<Rightarrow> string list \<Rightarrow> spawn_result) \<Rightarrow> (string \<Rightarrow> bool) \<Rightarrow> world" where
  "posix_world children present =
     \<lparr>win32 = False, ROOT = ''/opt/rql-py'', spawnSync = children,
      existsSync = present, mkdirSync_ok = (\<lambda>p. True)\<rparr>"

text \<open>The first three candidates report 3.9, 3.10 and 3.12; the fourth is not installed.\<close>

definition three_versions :: "(string \<times> spawn_result) list" where
  "three_versions =
     [(''python3.12'', exited 0 (Some (''3.9'' @ [CHR 0x0A]))),
      (''python3.11'', exited 0 (Some (''3.10'' @ [CHR 0x0A]))),
      (''python3'', exited 0 (Some (''3.12'' @ [CHR 0x0A])))]"

definition world_three_versions :: world where
  "world_three_versions =
     posix_world (scripted three_versions (exited 0 None) (exited 0 None) (exited 0 None))
       (\<lambda>p. False)"

text \<open>
  The first candidate is not installed, the second exits with status 1 (whatever it
  prints), the third reports 3.11.
\<close>

definition world_first_absent :: world where
  "world_first_absent =
     posix_world (scripted [(''python3.11'', exited 1 (Some (''3.12'' @ [CHR 0x0A]))),
                            (''python3'', exited 0 (Some (''3.11'' @ [CHR 0x0A])))]
                   (exited 0 None) (exited 0 None) (exited 0 None))
       (\<lambda>p. False)"

text \<open>The first candidate prints three fields, the last of them no number.\<close>

definition world_three_fields :: world where
  "world_three_fields =
     posix_world (scripted [(''python3.12'', exited 0 (Some (''3.11.zzz'' @ [CHR 0x0A])))]
                   (exited 0 None) (exited 0 None) (exited 0 None))
       (\<lambda>p. False)"

text \<open>The first candidate prints a banner before the version, the second reports 3.11.\<close>

definition world_banner :: world where
  "world_banner =
     posix_world (scripted [(''python3.12'', exited 0 (Some (''Python 3.11'' @ [CHR 0x0A]))),
                            (''python3.11'', exited 0 (Some (''3.11'' @ [CHR 0x0A])))]
                   (exited 0 None) (exited 0 None) (exited 0 None))
       (\<lambda>p. False)"

text \<open>
  Provisioning where the first candidate reports 3.12, with the results of the three
  steps and the existing paths given.
\<close>

definition provision_world ::
  "spawn_result \<Rightarrow> spawn_result \<Rightarrow> spawn_result \<Rightarrow> (string \<Rightarrow> bool) \<Rightarrow> world" where
  "provision_world create upgrade install present =
     posix_world
       (scripted [(''python3.12'', exited 0 (Some (''3.12'' @ [CHR 0x0A])))] create upgrade install)
       present"

text \<open>No candidate is installed.\<close>

definition world_no_python :: world where
  "world_no_python =
     posix_world (scripted [] (exited 0 None) (exited 0 None) (exited 0 None)) (\<lambda>p. False)"

text \<open>Nothing exists yet, and the creation of the environment exits with status 7.\<close>

definition world_create_fails :: world where
  "world_create_fails =
     provision_world (exited 7 None) (exited 0 None) (exited 0 None) (\<lambda>p. False)"

text \<open>Every path exists already, and every step succeeds.\<close>

definition world_rerun :: world where
  "world_rerun =
     provision_world (exited 0 None) (exited 0 None) (exited 0 None) (\<lambda>p. True)"

text \<open>Every path exists already, and the upgrade of the toolchain exits with status 1.\<close>

definition world_rerun_upgrade_fails :: world where
  "world_rerun_upgrade_fails =
     provision_world (exited 0 None) (exited 1 None) (exited 0 None) (\<lambda>p. True)"

text \<open>Nothing exists yet, and the child of the upgrade step cannot be started.\<close>

definition world_upgrade_not_started :: world where
  "world_upgrade_not_started =
     provision_world (exited 0 None) not_started (exited 0 None) (\<lambda>p. False)"

text \<open>Nothing exists yet, and the install step exits with status 2.\<close>

definition world_install_fails :: world where
  "world_install_fails =
     provision_world (exited 0 None) (exited 0 None) (exited 2 None) (\<lambda>p. False)"

text \<open>
  A run of the launcher: the platform (with an installation root to match), the existing
  paths, the argument vector, what becomes of the child, and the signals that end the
  launcher when it sends them to itself.
\<close>

definition launch ::
  "bool \<Rightarrow> (string \<Rightarrow> bool) \<Rightarrow> string list \<Rightarrow> child_end \<Rightarrow> (string \<Rightarrow> bool) \<Rightarrow> launch_world" where
  "launch win present av ch fatal =
     \<lparr>win32 = win, ROOT = (if win then ''C:'' @ [CHR 0x5C] @ ''rql-py'' else ''/opt/rql-py''),
      spawnSync = (\<lambda>cmd args. not_started),
      existsSync = present, mkdirSync_ok = (\<lambda>p. False),
      argv = av, child = ch, kill_fatal = fatal\<rparr>"

text \<open>The launcher called as \<^verbatim>\<open>rql run script.rql -v\<close>.\<close>

definition example_argv :: "string list" where
  "example_argv = [''/usr/bin/node'', ''/opt/rql-py/bin/rql.js'', ''run'', ''script.rql'', ''-v'']"

text \<open>The environment is there; the child exits with code 3, or without a code.\<close>

definition world_launch_run :: launch_world where
  "world_launch_run = launch False (\<lambda>p. True) example_argv (ChildExit (Some 3) None) (\<lambda>s. True)"

definition world_launch_no_code :: launch_world where
  "world_launch_no_code = launch False (\<lambda>p. True) example_argv (ChildExit None None) (\<lambda>s. True)"

text \<open>The interpreter of the environment is missing, on POSIX and on Windows.\<close>

definition world_launch_missing :: launch_world where
  "world_launch_missing = launch False (\<lambda>p. False) example_argv (ChildExit (Some 0) None) (\<lambda>s. True)"

definition world_launch_missing_win :: launch_world where
  "world_launch_missing_win = launch True (\<lambda>p. False) example_argv (ChildExit (Some 0) None) (\<lambda>s. True)"

text \<open>
  The child is ended by a signal: by \<^verbatim>\<open>SIGTERM\<close>, which also ends the launcher when it is
  sent to it, or by \<^verbatim>\<open>SIGPIPE\<close>, which the runtime of the launcher ignores.
\<close>

definition world_launch_sigterm :: launch_world where
  "world_launch_sigterm =
     launch False (\<lambda>p. True) example_argv (ChildExit None (Some ''SIGTERM''))
       (\<lambda>s. s \<noteq> ''SIGPIPE'')"

definition world_launch_sigpipe :: launch_world where
  "world_launch_sigpipe =
     launch False (\<lambda>p. True) example_argv (ChildExit None (Some ''SIGPIPE''))
       (\<lambda>s. s \<noteq> ''SIGPIPE'')"

section \<open>Facts about the model\<close>

lemmas number_simps =
  Number_def trim_def is_ws_def radix_literal_def split_sign_def unsigned_decimal_def
  exponent_part_def is_digit_def digit_of_def digits_val_def pow10_def Let_def

lemmas probe_simps =
  probe_def runCapture_def probe_cmd_def probe_args_def accepts_def version_ok_def element_def

lemmas example_simps =
  posix_world_def scripted_def exited_def not_started_def probe_script_def
  upgrade_args_def install_args_def

lemmas main_simps =
  main_def ensureDir_def VENDOR_def VENV_def
  path_join_def sep_def main_venv_def main_install_def run_def create_cmd_def
  create_args_def venvPython_def create_event_def upgrade_event_def install_event_def

lemma split_on_not_Nil: "split_on c s \<noteq> []"
  by (induction s) (auto split: list.splits)

lemma find_loop_events:
  "e \<in> set (fst (find_loop w cs)) \<Longrightarrow> \<exists>c \<in> set cs. e = Capture (probe_cmd c) (probe_args c)"
  by (induction cs) (auto split: if_splits prod.splits)

lemma find_loop_skip:
  "\<not> accepts (probe w c) \<Longrightarrow>
   find_loop w (c # rest) =
     (Capture (probe_cmd c) (probe_args c) # fst (find_loop w rest), snd (find_loop w rest))"
  by (simp split: prod.splits)

lemma find_loop_append:
  "\<forall>x \<in> set pre. \<not> accepts (probe w x) \<Longrightarrow>
   snd (find_loop w (pre @ cs)) = snd (find_loop w cs)"
  by (induction pre) (auto split: prod.splits)

lemma find_loop_Some_split:
  "snd (find_loop w cs) = Some c \<Longrightarrow>
   \<exists>pre post. cs = pre @ c # post \<and> (\<forall>x \<in> set pre. \<not> accepts (probe w x)) \<and>
     accepts (probe w c)"
proof (induction cs)
  case Nil
  then show ?case by simp
next
  case (Cons a cs)
  show ?case
  proof (cases "accepts (probe w a)")
    case True
    with Cons.prems have "a = c" by simp
    with True have
      "a # cs = [] @ c # cs \<and> (\<forall>x \<in> set []. \<not> accepts (probe w x)) \<and> accepts (probe w c)"
      by simp
    then show ?thesis by blast
  next
    case False
    with Cons.prems have "snd (find_loop w cs) = Some c"
      by (simp split: prod.splits)
    from Cons.IH [OF this] obtain pre post where
      "cs = pre @ c # post" "\<forall>x \<in> set pre. \<not> accepts (probe w x)" "accepts (probe w c)"
      by blast
    with False have
      "a # cs = (a # pre) @ c # post \<and> (\<forall>x \<in> set (a # pre). \<not> accepts (probe w x)) \<and>
       accepts (probe w c)"
      by simp
    then show ?thesis by blast
  qed
qed

lemma find_loop_Some_iff:
  "snd (find_loop w cs) = Some c \<longleftrightarrow>
   (\<exists>pre post. cs = pre @ c # post \<and> (\<forall>x \<in> set pre. \<not> accepts (probe w x)) \<and>
      accepts (probe w c))"
proof
  assume "snd (find_loop w cs) = Some c"
  then show "\<exists>pre post. cs = pre @ c # post \<and> (\<forall>x \<in> set pre. \<not> accepts (probe w x)) \<and>
      accepts (probe w c)"
    by (rule find_loop_Some_split)
next
  assume "\<exists>pre post. cs = pre @ c # post \<and> (\<forall>x \<in> set pre. \<not> accepts (probe w x)) \<and>
      accepts (probe w c)"
  then obtain pre post where
    cs: "cs = pre @ c # post" and pre: "\<forall>x \<in> set pre. \<not> accepts (probe w x)"
    and c: "accepts (probe w c)"
    by blast
  from pre have "snd (find_loop w (pre @ c # post)) = snd (find_loop w (c # post))"
    by (rule find_loop_append)
  with cs c show "snd (find_loop w cs) = Some c" by simp
qed

lemma find_loop_None_iff:
  "snd (find_loop w cs) = None \<longleftrightarrow> (\<forall>x \<in> set cs. \<not> accepts (probe w x))"
  by (induction cs) (auto split: prod.splits)

lemma find_loop_mem: "snd (find_loop w cs) = Some c \<Longrightarrow> c \<in> set cs"
  by (auto dest: find_loop_Some_split)

lemma candidates_not_empty: "c \<in> set (candidates win) \<Longrightarrow> c \<noteq> []"
  by (auto simp: candidates_def split: if_splits)

lemma found_not_empty: "snd (findPython311Plus w) = Some py \<Longrightarrow> py \<noteq> []"
  unfolding findPython311Plus_def by (blast dest: find_loop_mem candidates_not_empty)

lemma version_ok_iff:
  "version_ok v \<longleftrightarrow>
   (\<exists>f0 f1 others. split_on CHR ''.'' v = f0 # f1 # others \<and>
      strict_eq_3 (Num (Number f0)) \<and> ge_11 (Num (Number f1)))"
proof (cases "split_on CHR ''.'' v")
  case Nil
  then show ?thesis by (simp add: split_on_not_Nil)
next
  case (Cons f0 fs)
  show ?thesis
  proof (cases fs)
    case Nil
    with Cons show ?thesis by (simp add: version_ok_def element_def)
  next
    case (Cons f1 others)
    with \<open>split_on CHR ''.'' v = f0 # fs\<close> show ?thesis
      by (simp add: version_ok_def element_def)
  qed
qed

lemma accepts_iff:
  "accepts res \<longleftrightarrow>
   status res = Some 0 \<and>
   (\<exists>out. stdout res = Some out \<and> out \<noteq> [] \<and> version_ok (trim out))"
  by (auto simp: accepts_def split: option.splits)

lemma version_3_9: "\<not> version_ok (trim (''3.9'' @ [CHR 0x0A]))"
  by (simp add: version_ok_def element_def number_simps)

lemma version_3_10: "\<not> version_ok (trim (''3.10'' @ [CHR 0x0A]))"
  by (simp add: version_ok_def element_def number_simps)

lemma version_3_12: "version_ok (trim (''3.12'' @ [CHR 0x0A]))"
  by (simp add: version_ok_def element_def number_simps)

lemma candidates_length: "length (candidates win) = 4"
  by (simp add: candidates_def)

lemma find_loop_trace:
  "fst (find_loop w cs) =
     map (\<lambda>x. Capture (probe_cmd x) (probe_args x))
       (takeWhile (\<lambda>x. \<not> accepts (probe w x)) cs @
        take 1 (dropWhile (\<lambda>x. \<not> accepts (probe w x)) cs))"
  by (induction cs) (auto split: prod.splits)

lemma candidates_cmd_not_empty: "c \<in> set (candidates win) \<Longrightarrow> probe_cmd c \<noteq> []"
  by (auto simp: candidates_def probe_cmd_def split: if_splits)

lemma find_loop_third:
  assumes "\<not> accepts (probe w c0)" and "\<not> accepts (probe w c1)" and "accepts (probe w c2)"
  shows "snd (find_loop w (c0 # c1 # c2 # rest)) = Some c2"
  using assms by (simp split: prod.splits)

lemma findPython311Plus_events:
  "e \<in> set (fst (findPython311Plus w)) \<Longrightarrow> \<exists>cmd args. e = Capture cmd args"
  unfolding findPython311Plus_def by (blast dest: find_loop_events)

lemmas world_simps = example_simps probe_simps number_simps findPython311Plus_def candidates_def

lemma banner_rejected: "\<not> version_ok (trim (''Python 3.11'' @ [CHR 0x0A]))"
  by (simp add: version_ok_def element_def number_simps)

lemma three_fields_accepted: "version_ok (trim (''3.11.zzz'' @ [CHR 0x0A]))"
  by (simp add: version_ok_def element_def number_simps)

lemma strict_eq_3_NaN: "\<not> strict_eq_3 (Num NaN)" by simp
lemma ge_11_NaN: "\<not> ge_11 (Num NaN)" by simp

lemma main_not_found:
  "snd (findPython311Plus w) = None \<Longrightarrow>
   main w =
     (fst (findPython311Plus w) @
      [ConsoleError ''[rql-py] Error: Python >= 3.11 not found.'',
       ConsoleError ''[rql-py] Please install Python 3.11+ and re-run:'',
       ConsoleError ''           npm rebuild -g rql-py''],
      Exited 1)"
  by (cases "findPython311Plus w") (simp add: main_def)

lemma main_found:
  "snd (findPython311Plus w) = Some py \<Longrightarrow>
   main w =
     (if \<not> snd (ensureDir w (VENDOR w))
      then (fst (findPython311Plus w) @ fst (ensureDir w (VENDOR w)), Uncaught)
      else (fst (findPython311Plus w) @ fst (ensureDir w (VENDOR w)) @ fst (main_venv w py),
            snd (main_venv w py)))"
  using found_not_empty [of w py]
  by (cases "findPython311Plus w"; cases "ensureDir w (VENDOR w)"; cases "main_venv w py")
     (simp add: main_def)

lemma Run_not_probe: "Run cmd args cwd \<notin> set (fst (findPython311Plus w))"
  by (auto dest: findPython311Plus_events)

lemma Run_not_ensureDir: "Run cmd args cwd \<notin> set (fst (ensureDir w p))"
  by (simp add: ensureDir_def)

lemma Run_in_main_found:
  "snd (findPython311Plus w) = Some py \<Longrightarrow>
   Run cmd args cwd \<in> set (fst (main w)) \<longleftrightarrow>
   snd (ensureDir w (VENDOR w)) \<and> Run cmd args cwd \<in> set (fst (main_venv w py))"
  by (simp add: main_found Run_not_probe Run_not_ensureDir)

lemma Run_in_main_not_found:
  "snd (findPython311Plus w) = None \<Longrightarrow> Run cmd args cwd \<notin> set (fst (main w))"
  by (simp add: main_not_found Run_not_probe)

lemma run_nonzero_iff:
  "run w cmd args \<noteq> 0 \<longleftrightarrow>
   (\<exists>s. status (spawnSync w cmd args) = Some s \<and> s \<noteq> 0) \<or>
   (status (spawnSync w cmd args) = None \<and> error (spawnSync w cmd args))"
  by (simp add: run_def Let_def split: option.splits)

lemma create_in_main_install: "create_event w py \<notin> set (fst (main_install w))"
  by (simp add: main_install_def create_event_def upgrade_event_def install_event_def)

lemma upgrade_in_main_install: "upgrade_event w \<in> set (fst (main_install w))"
  by (simp add: main_install_def)

lemma install_in_main_install:
  "install_event w \<in> set (fst (main_install w)) \<longleftrightarrow> run w (venvPython w) upgrade_args = 0"
  by (simp add: main_install_def upgrade_event_def install_event_def upgrade_args_def install_args_def)

lemma no_cwd_in_main_install: "Run cmd args None \<notin> set (fst (main_install w))"
  by (simp add: main_install_def upgrade_event_def install_event_def)

lemma snd_main_install:
  "snd (main_install w) =
     (if run w (venvPython w) upgrade_args \<noteq> 0 \<or> run w (venvPython w) install_args \<noteq> 0
      then Exited 1 else Exited 0)"
  by (simp add: main_install_def)

lemma main_venv_present: "existsSync w (VENV w) \<Longrightarrow> main_venv w py = main_install w"
  by (simp add: main_venv_def)

lemma main_venv_create_failed:
  "\<not> existsSync w (VENV w) \<Longrightarrow> run w (create_cmd py) (create_args w py) \<noteq> 0 \<Longrightarrow>
   main_venv w py =
     ([ConsoleLog ''[rql-py] Creating virtual environment...'',
       create_event w py,
       ConsoleError ''[rql-py] Failed to create venv.''],
      Exited (run w (create_cmd py) (create_args w py)))"
  by (simp add: main_venv_def)

lemma main_venv_created:
  "\<not> existsSync w (VENV w) \<Longrightarrow> run w (create_cmd py) (create_args w py) = 0 \<Longrightarrow>
   main_venv w py =
     ([ConsoleLog ''[rql-py] Creating virtual environment...'', create_event w py] @
        fst (main_install w),
      snd (main_install w))"
  by (simp add: main_venv_def split: prod.splits)

lemma create_in_main_venv:
  "create_event w py \<in> set (fst (main_venv w py)) \<longleftrightarrow> \<not> existsSync w (VENV w)"
  by (cases "run w (create_cmd py) (create_args w py) = 0")
     (auto simp: main_venv_present main_venv_created main_venv_create_failed create_in_main_install)

lemma upgrade_in_main_venv:
  "upgrade_event w \<in> set (fst (main_venv w py)) \<longleftrightarrow>
   existsSync w (VENV w) \<or> run w (create_cmd py) (create_args w py) = 0"
  by (cases "run w (create_cmd py) (create_args w py) = 0"; cases "existsSync w (VENV w)")
     (simp_all add: main_venv_present main_venv_created main_venv_create_failed
        upgrade_in_main_install, simp_all add: upgrade_event_def create_event_def)

lemma install_in_main_venv:
  "install_event w \<in> set (fst (main_venv w py)) \<longleftrightarrow>
   (existsSync w (VENV w) \<or> run w (create_cmd py) (create_args w py) = 0) \<and>
   run w (venvPython w) upgrade_args = 0"
  by (cases "run w (create_cmd py) (create_args w py) = 0"; cases "existsSync w (VENV w)")
     (simp_all add: main_venv_present main_venv_created main_venv_create_failed
        install_in_main_install, simp_all add: install_event_def create_event_def)

lemmas provision_simps = provision_world_def world_simps main_simps

lemma main_world_create_fails:
  "main world_create_fails =
     ([Capture ''python3.12'' [''-c'', probe_script],
       MkdirSync ''/opt/rql-py/vendor'',
       ConsoleLog ''[rql-py] Creating virtual environment...'',
       Run ''python3.12'' [''-m'', ''venv'', ''/opt/rql-py/vendor/venv''] None,
       ConsoleError ''[rql-py] Failed to create venv.''],
      Exited 7)"
  by (simp add: world_create_fails_def provision_simps)

lemma main_world_rerun:
  "main world_rerun =
     ([Capture ''python3.12'' [''-c'', probe_script],
       ConsoleLog ''[rql-py] Upgrading pip/setuptools/wheel...'',
       Run ''/opt/rql-py/vendor/venv/bin/python''
         [''-m'', ''pip'', ''install'', ''--upgrade'', ''pip'', ''setuptools'', ''wheel'']
         (Some ''/opt/rql-py''),
       ConsoleLog ''[rql-py] Installing Python package into venv...'',
       Run ''/opt/rql-py/vendor/venv/bin/python'' [''-m'', ''pip'', ''install'', ''.'']
         (Some ''/opt/rql-py''),
       ConsoleLog ''[rql-py] Install complete. You can now run: rql''],
      Exited 0)"
  by (simp add: world_rerun_def provision_simps)

lemma snd_main_after_upgrade:
  assumes "upgrade_event w \<in> set (fst (main w))"
  shows "snd (main w) = snd (main_install w)"
proof (cases "snd (findPython311Plus w)")
  case None
  with assms show ?thesis by (simp add: upgrade_event_def Run_in_main_not_found)
next
  case (Some py)
  with assms have dir: "snd (ensureDir w (VENDOR w))"
    and "upgrade_event w \<in> set (fst (main_venv w py))"
    by (simp_all add: upgrade_event_def Run_in_main_found)
  then have "existsSync w (VENV w) \<or> run w (create_cmd py) (create_args w py) = 0"
    by (simp add: upgrade_in_main_venv)
  then have "snd (main_venv w py) = snd (main_install w)"
    by (cases "existsSync w (VENV w)") (simp_all add: main_venv_present main_venv_created)
  with Some dir show ?thesis by (simp add: main_found)
qed

lemma install_needs_upgrade:
  assumes "install_event w \<in> set (fst (main w))"
  shows "upgrade_event w \<in> set (fst (main w)) \<and> run w (venvPython w) upgrade_args = 0"
proof (cases "snd (findPython311Plus w)")
  case None
  with assms show ?thesis by (simp add: install_event_def Run_in_main_not_found)
next
  case (Some py)
  with assms have dir: "snd (ensureDir w (VENDOR w))"
    and "install_event w \<in> set (fst (main_venv w py))"
    by (simp_all add: install_event_def Run_in_main_found)
  then have "(existsSync w (VENV w) \<or> run w (create_cmd py) (create_args w py) = 0) \<and>
      run w (venvPython w) upgrade_args = 0"
    by (simp add: install_in_main_venv)
  then have "upgrade_event w \<in> set (fst (main_venv w py)) \<and> run w (venvPython w) upgrade_args = 0"
    by (simp add: upgrade_in_main_venv)
  with Some dir show ?thesis
    by (simp add: upgrade_event_def Run_in_main_found)
qed

lemma install_after_failed_upgrade:
  assumes "upgrade_event w \<in> set (fst (main w))" and "run w (venvPython w) upgrade_args \<noteq> 0"
  shows "install_event w \<notin> set (fst (main w))"
  using assms install_needs_upgrade [of w] by blast

lemma main_world_no_python:
  "main world_no_python =
     ([Capture ''python3.12'' [''-c'', probe_script],
       Capture ''python3.11'' [''-c'', probe_script],
       Capture ''python3'' [''-c'', probe_script],
       Capture ''python'' [''-c'', probe_script],
       ConsoleError ''[rql-py] Error: Python >= 3.11 not found.'',
       ConsoleError ''[rql-py] Please install Python 3.11+ and re-run:'',
       ConsoleError ''           npm rebuild -g rql-py''],
      Exited 1)"
  by (simp add: world_no_python_def provision_simps)

lemma main_world_upgrade_not_started:
  "main world_upgrade_not_started =
     ([Capture ''python3.12'' [''-c'', probe_script],
       MkdirSync ''/opt/rql-py/vendor'',
       ConsoleLog ''[rql-py] Creating virtual environment...'',
       Run ''python3.12'' [''-m'', ''venv'', ''/opt/rql-py/vendor/venv''] None,
       ConsoleLog ''[rql-py] Upgrading pip/setuptools/wheel...'',
       Run ''/opt/rql-py/vendor/venv/bin/python''
         [''-m'', ''pip'', ''install'', ''--upgrade'', ''pip'', ''setuptools'', ''wheel'']
         (Some ''/opt/rql-py''),
       ConsoleError ''[rql-py] Failed to upgrade pip toolchain.''],
      Exited 1)"
  by (simp add: world_upgrade_not_started_def provision_simps)

lemma main_world_install_fails:
  "main world_install_fails =
     ([Capture ''python3.12'' [''-c'', probe_script],
       MkdirSync ''/opt/rql-py/vendor'',
       ConsoleLog ''[rql-py] Creating virtual environment...'',
       Run ''python3.12'' [''-m'', ''venv'', ''/opt/rql-py/vendor/venv''] None,
       ConsoleLog ''[rql-py] Upgrading pip/setuptools/wheel...'',
       Run ''/opt/rql-py/vendor/venv/bin/python''
         [''-m'', ''pip'', ''install'', ''--upgrade'', ''pip'', ''setuptools'', ''wheel'']
         (Some ''/opt/rql-py''),
       ConsoleLog ''[rql-py] Installing Python package into venv...'',
       Run ''/opt/rql-py/vendor/venv/bin/python'' [''-m'', ''pip'', ''install'', ''.'']
         (Some ''/opt/rql-py''),
       ConsoleError ''[rql-py] pip install . failed.''],
      Exited 1)"
  by (simp add: world_install_fails_def provision_simps)

lemmas launch_simps =
  launch_def launcher_def launcher_args_def fail_def on_exit_def venvPython_def VENV_def
  VENDOR_def path_join_def sep_def example_argv_def

lemma Spawn_in_launcher:
  "Spawn cmd args \<in> set (fst (launcher w)) \<longleftrightarrow>
   existsSync w (venvPython w) \<and> cmd = venvPython w \<and> args = launcher_args (argv w)"
  by (cases "child w"; cases "existsSync w (venvPython w)")
     (auto simp: launcher_def fail_def on_exit_def split: option.splits prod.splits)

lemma of_char_digit_char:
  assumes "d < 10"
  shows "(of_char (digit_char d) :: nat) = 48 + d"
proof -
  from assms have "d \<in> {0, 1, 2, 3, 4, 5, 6, 7, 8, 9}" by auto
  then show ?thesis by (auto simp: digit_char_def)
qed

lemma digit_of_digit_char: "d < 10 \<Longrightarrow> digit_of (digit_char d) = d"
  by (simp add: digit_of_def of_char_digit_char)

lemma is_digit_digit_char: "d < 10 \<Longrightarrow> is_digit 10 (digit_char d)"
  by (simp add: is_digit_def digit_of_digit_char)

lemma is_digit_10_iff:
  "is_digit 10 c \<longleftrightarrow> 48 \<le> (of_char c :: nat) \<and> (of_char c :: nat) \<le> 57"
  by (auto simp: is_digit_def digit_of_def Let_def)

lemma decimal_digits: "list_all (is_digit 10) (decimal n)"
proof (induction n rule: decimal.induct)
  case (1 n)
  show ?case
  proof (cases "n < 10")
    case True
    then show ?thesis by (simp add: decimal.simps [of n] is_digit_digit_char)
  next
    case False
    with 1 have "list_all (is_digit 10) (decimal (n div 10))" by simp
    moreover have "is_digit 10 (digit_char (n mod 10))"
      by (simp add: is_digit_digit_char)
    ultimately show ?thesis using False by (simp add: decimal.simps [of n])
  qed
qed

lemma decimal_not_Nil: "decimal n \<noteq> []"
  by (simp add: decimal.simps [of n])

lemma digits_val_snoc: "digits_val b (ds @ [c]) = digits_val b ds * b + digit_of c"
  by (simp add: digits_val_def)

lemma digits_val_decimal: "digits_val 10 (decimal n) = n"
proof (induction n rule: decimal.induct)
  case (1 n)
  show ?case
  proof (cases "n < 10")
    case True
    then show ?thesis
      by (simp add: decimal.simps [of n] digits_val_def digit_of_digit_char)
  next
    case False
    with 1 have "digits_val 10 (decimal (n div 10)) = n div 10" by simp
    moreover have "digit_of (digit_char (n mod 10)) = n mod 10"
      by (simp add: digit_of_digit_char)
    ultimately show ?thesis using False
      by (simp add: decimal.simps [of n] digits_val_snoc)
  qed
qed

lemma digit_not_ws: "is_digit 10 c \<Longrightarrow> \<not> is_ws c"
  by (auto simp: is_digit_10_iff is_ws_def)

lemma digit_not_dot: "is_digit 10 c \<Longrightarrow> c \<noteq> CHR ''.''"
  by (auto simp: is_digit_10_iff)

lemma trim_no_ws:
  assumes "a \<noteq> []" and "\<forall>c \<in> set a. \<not> is_ws c"
  shows "trim a = a" and "trim (a @ [CHR 0x0A]) = a"
proof -
  from assms obtain x xs where a: "a = x # xs" by (cases a) auto
  with assms have x: "\<not> is_ws x" by simp
  from assms obtain y ys where r: "rev a = y # ys" by (cases "rev a") auto
  then have "y \<in> set a" by (metis list.set_intros(1) set_rev)
  with assms have y: "\<not> is_ws y" by simp
  have d1: "dropWhile is_ws a = a" using a x by simp
  have d2: "dropWhile is_ws (rev a) = rev a" using r y by simp
  show "trim a = a" by (simp add: trim_def d1 d2)
  have "dropWhile is_ws (a @ [CHR 0x0A]) = a @ [CHR 0x0A]" using a x by simp
  moreover have "is_ws (CHR 0x0A)" by (simp add: is_ws_def)
  ultimately show "trim (a @ [CHR 0x0A]) = a" by (simp add: trim_def d2)
qed

lemma split_on_absent: "c \<notin> set a \<Longrightarrow> split_on c a = [a]"
  by (induction a) auto

lemma split_on_first: "c \<notin> set a \<Longrightarrow> split_on c (a @ c # b) = a # split_on c b"
  by (induction a) auto

lemma radix_literal_digits: "list_all (is_digit 10) t \<Longrightarrow> radix_literal t = None"
  by (auto simp: radix_literal_def is_digit_10_iff split: list.splits)

lemma split_sign_digits: "list_all (is_digit 10) t \<Longrightarrow> split_sign t = (1, t)"
  by (auto simp: split_sign_def is_digit_10_iff split: list.splits)

lemma digits_not_Infinity: "list_all (is_digit 10) t \<Longrightarrow> t \<noteq> ''Infinity''"
  by (auto simp: is_digit_10_iff)

lemma unsigned_decimal_digits:
  assumes "list_all (is_digit 10) t" and "t \<noteq> []"
  shows "unsigned_decimal t = Some (of_nat (digits_val 10 t))"
proof -
  from assms(1) have tw: "takeWhile (is_digit 10) t = t"
    and dw: "dropWhile (is_digit 10) t = []"
    by (simp_all add: list_all_iff)
  from assms(2) show ?thesis
    by (simp add: unsigned_decimal_def Let_def tw dw exponent_part_def pow10_def)
qed

lemma Number_decimal: "Number (decimal n) = Fin (of_nat n)"
proof -
  have d: "list_all (is_digit 10) (decimal n)" by (rule decimal_digits)
  have ne: "decimal n \<noteq> []" by (rule decimal_not_Nil)
  from d have "\<forall>c \<in> set (decimal n). \<not> is_ws c"
    by (auto simp: list_all_iff dest: digit_not_ws)
  with ne have t: "trim (decimal n) = decimal n" by (rule trim_no_ws(1))
  show ?thesis
    using ne
    by (simp add: Number_def t radix_literal_digits [OF d] split_sign_digits [OF d]
        digits_not_Infinity [OF d] unsigned_decimal_digits [OF d ne] digits_val_decimal)
qed

lemma strict_eq_3_nat: "strict_eq_3 (Num (Fin (of_nat m))) \<longleftrightarrow> m = 3"
proof
  assume a: "strict_eq_3 (Num (Fin (of_nat m)))"
  show "m = 3"
  proof (rule ccontr)
    assume "m \<noteq> 3"
    then consider "m \<le> 2" | "4 \<le> m" by linarith
    then have "1 \<le> \<bar>(of_nat m :: rat) - 3\<bar>"
    proof cases
      case 1
      then have "(of_nat m :: rat) \<le> 2" by (metis of_nat_le_iff of_nat_numeral)
      then show ?thesis by simp
    next
      case 2
      then have "(4 :: rat) \<le> of_nat m" by (metis of_nat_le_iff of_nat_numeral)
      then show ?thesis by simp
    qed
    moreover have "(1 :: rat) / 2 ^ 52 < 1" by simp
    ultimately show False using a by simp
  qed
next
  assume "m = 3"
  then show "strict_eq_3 (Num (Fin (of_nat m)))" by simp
qed

lemma ge_11_nat: "ge_11 (Num (Fin (of_nat n))) \<longleftrightarrow> 11 \<le> n"
proof
  assume a: "ge_11 (Num (Fin (of_nat n)))"
  show "11 \<le> n"
  proof (rule ccontr)
    assume "\<not> 11 \<le> n"
    then have "n \<le> 10" by simp
    then have "(of_nat n :: rat) \<le> 10" by (metis of_nat_le_iff of_nat_numeral)
    moreover have "(1 :: rat) / 2 ^ 50 < 1" by simp
    ultimately show False using a by simp
  qed
next
  assume "11 \<le> n"
  then have "(11 :: rat) \<le> of_nat n" by (metis of_nat_le_iff of_nat_numeral)
  moreover have "(0 :: rat) \<le> 1 / 2 ^ 50" by simp
  ultimately show "ge_11 (Num (Fin (of_nat n)))" by simp
qed

lemma version_ok_probe_output:
  "version_ok (trim (probe_output m n)) \<longleftrightarrow> m = 3 \<and> 11 \<le> n"
proof -
  let ?a = "decimal m @ ''.'' @ decimal n"
  have dm: "list_all (is_digit 10) (decimal m)" and dn: "list_all (is_digit 10) (decimal n)"
    by (rule decimal_digits)+
  have dot: "\<not> is_ws CHR ''.''" by (simp add: is_ws_def)
  have "\<forall>c \<in> set ?a. \<not> is_ws c"
    using dm dn dot by (auto simp: list_all_iff dest: digit_not_ws)
  moreover have "?a \<noteq> []" by simp
  ultimately have "trim (?a @ [CHR 0x0A]) = ?a" by (rule trim_no_ws(2) [rotated])
  then have t: "trim (probe_output m n) = ?a" by (simp add: probe_output_def)
  have "CHR ''.'' \<notin> set (decimal m)" and "CHR ''.'' \<notin> set (decimal n)"
    using dm dn by (auto simp: list_all_iff dest: digit_not_dot)
  then have "split_on CHR ''.'' ?a = [decimal m, decimal n]"
    by (simp add: split_on_first split_on_absent)
  then have "version_ok ?a \<longleftrightarrow> m = 3 \<and> 11 \<le> n"
    by (simp add: version_ok_def element_def Number_decimal strict_eq_3_nat ge_11_nat
        del: strict_eq_3.simps ge_11.simps)
  then show ?thesis unfolding t .
qed

lemma probe_output_not_Nil: "probe_output m n \<noteq> []"
  by (simp add: probe_output_def)

lemma accepts_probe_output:
  "status res = Some 0 \<Longrightarrow> stdout res = Some (probe_output m n) \<Longrightarrow>
   accepts res \<longleftrightarrow> m = 3 \<and> 11 \<le> n"
  by (simp add: accepts_iff probe_output_not_Nil version_ok_probe_output)

lemma probe_command_lines:
  "map (\<lambda>x. (probe_cmd x, probe_args x)) (candidates win) =
     (if win
      then [(''py'', [''-3.11'', ''-c'', probe_script]), (''py'', [''-3'', ''-c'', probe_script]),
            (''python3'', [''-c'', probe_script]), (''python'', [''-c'', probe_script])]
      else [(''python3.12'', [''-c'', probe_script]), (''python3.11'', [''-c'', probe_script]),
            (''python3'', [''-c'', probe_script]), (''python'', [''-c'', probe_script])])"
  by (simp add: candidates_def probe_cmd_def probe_args_def)

section \<open>Interpreter discovery\<close>

text \<open>
  Claim C1. Discovery goes through the candidate list of the platform in order and
  returns the first candidate that the loop accepts: the candidate whose probe exits with
  status 0 and prints a non-empty output of which, once trimmed and split at the dots,
  the first field converts to the number 3 and the second to a number of at least 11.
  It returns \<^verbatim>\<open>null\<close> exactly when the loop accepts no candidate. The probes it runs
  are those of the candidates before the accepted one, in the order of the list, and then
  that of the accepted one. When the first three candidates report 3.9, 3.10 and 3.12,
  the third one is returned. For a probe that exits with status 0 and prints what the
  probe script prints for the version \<open>m.n\<close>, the test is exactly \<open>m = 3\<close> and
  \<open>n \<ge> 11\<close>. The command lines of the probes are those of the two lists, each split
  at its spaces and followed by \<^verbatim>\<open>-c\<close> and the probe script.
\<close>

theorem findPython311Plus_first_accepted:
  "(snd (findPython311Plus w) = Some c \<longleftrightarrow>
      (\<exists>pre post. candidates (win32 w) = pre @ c # post \<and>
         (\<forall>x \<in> set pre. \<not> accepts (probe w x)) \<and> accepts (probe w c))) \<and>
   (snd (findPython311Plus w) = None \<longleftrightarrow>
      (\<forall>x \<in> set (candidates (win32 w)). \<not> accepts (probe w x))) \<and>
   fst (findPython311Plus w) =
     map (\<lambda>x. Capture (probe_cmd x) (probe_args x))
       (takeWhile (\<lambda>x. \<not> accepts (probe w x)) (candidates (win32 w)) @
        take 1 (dropWhile (\<lambda>x. \<not> accepts (probe w x)) (candidates (win32 w)))) \<and>
   (accepts (probe w c) \<longleftrightarrow>
      status (probe w c) = Some 0 \<and>
      (\<exists>out. stdout (probe w c) = Some out \<and> out \<noteq> [] \<and>
         strict_eq_3 (element (map Number (split_on CHR ''.'' (trim out))) 0) \<and>
         ge_11 (element (map Number (split_on CHR ''.'' (trim out))) 1))) \<and>
   (status (probe w (candidates (win32 w) ! 0)) = Some 0 \<and>
    stdout (probe w (candidates (win32 w) ! 0)) = Some (''3.9'' @ [CHR 0x0A]) \<and>
    status (probe w (candidates (win32 w) ! 1)) = Some 0 \<and>
    stdout (probe w (candidates (win32 w) ! 1)) = Some (''3.10'' @ [CHR 0x0A]) \<and>
    status (probe w (candidates (win32 w) ! 2)) = Some 0 \<and>
    stdout (probe w (candidates (win32 w) ! 2)) = Some (''3.12'' @ [CHR 0x0A]) \<longrightarrow>
    snd (findPython311Plus w) = Some (candidates (win32 w) ! 2)) \<and>
   (status res = Some 0 \<and> stdout res = Some (probe_output m n) \<longrightarrow>
    (accepts res \<longleftrightarrow> m = 3 \<and> 11 \<le> n)) \<and>
   map (\<lambda>x. (probe_cmd x, probe_args x)) (candidates (win32 w)) =
     (if win32 w
      then [(''py'', [''-3.11'', ''-c'', probe_script]), (''py'', [''-3'', ''-c'', probe_script]),
            (''python3'', [''-c'', probe_script]), (''python'', [''-c'', probe_script])]
      else [(''python3.12'', [''-c'', probe_script]), (''python3.11'', [''-c'', probe_script]),
            (''python3'', [''-c'', probe_script]), (''python'', [''-c'', probe_script])])"
proof (intro conjI impI)
  show "snd (findPython311Plus w) = Some c \<longleftrightarrow>
      (\<exists>pre post. candidates (win32 w) = pre @ c # post \<and>
         (\<forall>x \<in> set pre. \<not> accepts (probe w x)) \<and> accepts (probe w c))"
    unfolding findPython311Plus_def by (rule find_loop_Some_iff)
  show "snd (findPython311Plus w) = None \<longleftrightarrow>
      (\<forall>x \<in> set (candidates (win32 w)). \<not> accepts (probe w x))"
    unfolding findPython311Plus_def by (rule find_loop_None_iff)
  show "fst (findPython311Plus w) =
     map (\<lambda>x. Capture (probe_cmd x) (probe_args x))
       (takeWhile (\<lambda>x. \<not> accepts (probe w x)) (candidates (win32 w)) @
        take 1 (dropWhile (\<lambda>x. \<not> accepts (probe w x)) (candidates (win32 w))))"
    unfolding findPython311Plus_def by (rule find_loop_trace)
  show "accepts (probe w c) \<longleftrightarrow>
      status (probe w c) = Some 0 \<and>
      (\<exists>out. stdout (probe w c) = Some out \<and> out \<noteq> [] \<and>
         strict_eq_3 (element (map Number (split_on CHR ''.'' (trim out))) 0) \<and>
         ge_11 (element (map Number (split_on CHR ''.'' (trim out))) 1))"
    by (simp add: accepts_iff version_ok_def Let_def)
  show "map (\<lambda>x. (probe_cmd x, probe_args x)) (candidates (win32 w)) =
     (if win32 w
      then [(''py'', [''-3.11'', ''-c'', probe_script]), (''py'', [''-3'', ''-c'', probe_script]),
            (''python3'', [''-c'', probe_script]), (''python'', [''-c'', probe_script])]
      else [(''python3.12'', [''-c'', probe_script]), (''python3.11'', [''-c'', probe_script]),
            (''python3'', [''-c'', probe_script]), (''python'', [''-c'', probe_script])])"
    by (rule probe_command_lines)
next
  assume "status res = Some 0 \<and> stdout res = Some (probe_output m n)"
  then show "accepts res \<longleftrightarrow> m = 3 \<and> 11 \<le> n"
    by (simp add: accepts_probe_output)
next
  assume a:
    "status (probe w (candidates (win32 w) ! 0)) = Some 0 \<and>
     stdout (probe w (candidates (win32 w) ! 0)) = Some (''3.9'' @ [CHR 0x0A]) \<and>
     status (probe w (candidates (win32 w) ! 1)) = Some 0 \<and>
     stdout (probe w (candidates (win32 w) ! 1)) = Some (''3.10'' @ [CHR 0x0A]) \<and>
     status (probe w (candidates (win32 w) ! 2)) = Some 0 \<and>
     stdout (probe w (candidates (win32 w) ! 2)) = Some (''3.12'' @ [CHR 0x0A])"
  obtain c0 c1 c2 c3 where cs: "candidates (win32 w) = [c0, c1, c2, c3]"
    by (cases "win32 w") (simp_all add: candidates_def)
  from a cs have "\<not> accepts (probe w c0)"
    using version_3_9 by (simp add: accepts_iff)
  moreover from a cs have "\<not> accepts (probe w c1)"
    using version_3_10 by (simp add: accepts_iff)
  moreover from a cs have "accepts (probe w c2)"
    using version_3_12 by (simp add: accepts_iff)
  ultimately have "snd (find_loop w [c0, c1, c2, c3]) = Some c2"
    by (rule find_loop_third)
  with cs show "snd (findPython311Plus w) = Some (candidates (win32 w) ! 2)"
    by (simp add: findPython311Plus_def)
qed

theorem findPython311Plus_first_accepted_witness:
  "snd (findPython311Plus world_three_versions) = Some ''python3'' \<and>
   candidates (win32 world_three_versions) = [''python3.12'', ''python3.11''] @ ''python3'' # [''python''] \<and>
   \<not> accepts (probe world_three_versions ''python3.12'') \<and>
   \<not> accepts (probe world_three_versions ''python3.11'') \<and>
   accepts (probe world_three_versions ''python3'') \<and>
   \<not> accepts (exited 0 (Some (''2.12'' @ [CHR 0x0A]))) \<and>
   \<not> accepts (exited 0 (Some (''4.11'' @ [CHR 0x0A]))) \<and>
   \<not> accepts (exited 0 (Some (''3.10'' @ [CHR 0x0A]))) \<and>
   accepts (exited 0 (Some (''3.11'' @ [CHR 0x0A]))) \<and>
   accepts (exited 0 (Some (''3.13'' @ [CHR 0x0A])))"
proof -
  have cs: "candidates (win32 world_three_versions) =
      [''python3.12'', ''python3.11''] @ ''python3'' # [''python'']"
    by (simp add: candidates_def world_three_versions_def posix_world_def)
  have p0: "probe world_three_versions ''python3.12'' = exited 0 (Some (''3.9'' @ [CHR 0x0A]))"
    by (simp add: world_three_versions_def three_versions_def example_simps probe_def
        runCapture_def probe_cmd_def probe_args_def)
  have p1: "probe world_three_versions ''python3.11'' = exited 0 (Some (''3.10'' @ [CHR 0x0A]))"
    by (simp add: world_three_versions_def three_versions_def example_simps probe_def
        runCapture_def probe_cmd_def probe_args_def)
  have p2: "probe world_three_versions ''python3'' = exited 0 (Some (''3.12'' @ [CHR 0x0A]))"
    by (simp add: world_three_versions_def three_versions_def example_simps probe_def
        runCapture_def probe_cmd_def probe_args_def)
  have n0: "\<not> accepts (probe world_three_versions ''python3.12'')"
    using version_3_9 by (simp add: p0 accepts_iff exited_def)
  have n1: "\<not> accepts (probe world_three_versions ''python3.11'')"
    using version_3_10 by (simp add: p1 accepts_iff exited_def)
  have y2: "accepts (probe world_three_versions ''python3'')"
    using version_3_12 by (simp add: p2 accepts_iff exited_def)
  have pre: "\<forall>x \<in> set [''python3.12'', ''python3.11'']. \<not> accepts (probe world_three_versions x)"
    using n0 n1 by simp
  from findPython311Plus_first_accepted [of world_three_versions "''python3''"]
  have found: "snd (findPython311Plus world_three_versions) = Some ''python3''"
    using cs pre y2 by blast
  have o1: "probe_output 2 12 = ''2.12'' @ [CHR 0x0A]"
    and o2: "probe_output 4 11 = ''4.11'' @ [CHR 0x0A]"
    and o3: "probe_output 3 10 = ''3.10'' @ [CHR 0x0A]"
    and o4: "probe_output 3 11 = ''3.11'' @ [CHR 0x0A]"
    and o5: "probe_output 3 13 = ''3.13'' @ [CHR 0x0A]"
    by (simp_all add: probe_output_def decimal.simps digit_char_def)
  have st: "status (exited 0 (Some out)) = Some 0"
    and so: "stdout (exited 0 (Some out)) = Some out" for out
    by (simp_all add: exited_def)
  from findPython311Plus_first_accepted
    [where res = "exited 0 (Some (probe_output 2 12))" and m = 2 and n = 12]
  have r1: "\<not> accepts (exited 0 (Some (''2.12'' @ [CHR 0x0A])))"
    by (simp add: st so o1)
  from findPython311Plus_first_accepted
    [where res = "exited 0 (Some (probe_output 4 11))" and m = 4 and n = 11]
  have r2: "\<not> accepts (exited 0 (Some (''4.11'' @ [CHR 0x0A])))"
    by (simp add: st so o2)
  from findPython311Plus_first_accepted
    [where res = "exited 0 (Some (probe_output 3 10))" and m = 3 and n = 10]
  have r3: "\<not> accepts (exited 0 (Some (''3.10'' @ [CHR 0x0A])))"
    by (simp add: st so o3)
  from findPython311Plus_first_accepted
    [where res = "exited 0 (Some (probe_output 3 11))" and m = 3 and n = 11]
  have r4: "accepts (exited 0 (Some (''3.11'' @ [CHR 0x0A])))"
    by (simp add: st so o4)
  from findPython311Plus_first_accepted
    [where res = "exited 0 (Some (probe_output 3 13))" and m = 3 and n = 13]
  have r5: "accepts (exited 0 (Some (''3.13'' @ [CHR 0x0A])))"
    by (simp add: st so o5)
  from found cs n0 n1 y2 r1 r2 r3 r4 r5 show ?thesis by simp
qed

text \<open>
  Claim C7. A candidate whose probe does not end with status 0 (the binary is absent or
  cannot be started, so that there is no status, or the probe exits with another status)
  is passed over: the loop goes on with the candidates that are left and returns what it
  returns for them. The loop has no other way to end than to return a candidate or
  \<^verbatim>\<open>null\<close>. All that discovery does is to run the probes of candidates of the list: it
  creates no directory and writes no file.
\<close>

theorem failed_probe_is_skipped:
  "(status (probe w c) \<noteq> Some 0 \<longrightarrow>
      find_loop w (c # rest) =
        (Capture (probe_cmd c) (probe_args c) # fst (find_loop w rest),
         snd (find_loop w rest))) \<and>
   (\<forall>e \<in> set (fst (findPython311Plus w)).
      \<exists>x \<in> set (candidates (win32 w)). e = Capture (probe_cmd x) (probe_args x))"
proof (intro conjI impI ballI)
  assume "status (probe w c) \<noteq> Some 0"
  then have "\<not> accepts (probe w c)" by (simp add: accepts_def)
  then show "find_loop w (c # rest) =
        (Capture (probe_cmd c) (probe_args c) # fst (find_loop w rest),
         snd (find_loop w rest))"
    by (rule find_loop_skip)
next
  fix e assume "e \<in> set (fst (findPython311Plus w))"
  then show "\<exists>x \<in> set (candidates (win32 w)). e = Capture (probe_cmd x) (probe_args x)"
    unfolding findPython311Plus_def by (rule find_loop_events)
qed

theorem failed_probe_is_skipped_witness:
  "status (probe world_first_absent ''python3.12'') = None \<and>
   error (probe world_first_absent ''python3.12'') \<and>
   find_loop world_first_absent [''python3.12'', ''python3.11'', ''python3'', ''python''] =
     (Capture ''python3.12'' [''-c'', probe_script] #
        fst (find_loop world_first_absent [''python3.11'', ''python3'', ''python'']),
      snd (find_loop world_first_absent [''python3.11'', ''python3'', ''python''])) \<and>
   status (probe world_first_absent ''python3.11'') = Some 1 \<and>
   findPython311Plus world_first_absent =
     ([Capture ''python3.12'' [''-c'', probe_script],
       Capture ''python3.11'' [''-c'', probe_script],
       Capture ''python3'' [''-c'', probe_script]],
      Some ''python3'')"
proof -
  have s0: "status (probe world_first_absent ''python3.12'') = None"
    by (simp add: world_first_absent_def world_simps)
  have e0: "error (probe world_first_absent ''python3.12'')"
    by (simp add: world_first_absent_def world_simps)
  have s1: "status (probe world_first_absent ''python3.11'') = Some 1"
    by (simp add: world_first_absent_def world_simps)
  have ev: "findPython311Plus world_first_absent =
     ([Capture ''python3.12'' [''-c'', probe_script],
       Capture ''python3.11'' [''-c'', probe_script],
       Capture ''python3'' [''-c'', probe_script]],
      Some ''python3'')"
    by (simp add: world_first_absent_def world_simps)
  have c0: "probe_cmd ''python3.12'' = ''python3.12''"
    and a0: "probe_args ''python3.12'' = [''-c'', probe_script]"
    by (simp_all add: probe_cmd_def probe_args_def)
  from s0 have "status (probe world_first_absent ''python3.12'') \<noteq> Some 0" by simp
  with failed_probe_is_skipped
    [of world_first_absent "''python3.12''" "[''python3.11'', ''python3'', ''python'']"]
  have "find_loop world_first_absent [''python3.12'', ''python3.11'', ''python3'', ''python''] =
     (Capture (probe_cmd ''python3.12'') (probe_args ''python3.12'') #
        fst (find_loop world_first_absent [''python3.11'', ''python3'', ''python'']),
      snd (find_loop world_first_absent [''python3.11'', ''python3'', ''python'']))"
    by blast
  with s0 e0 s1 ev c0 a0 show ?thesis by simp
qed

text \<open>
  Claim C10, as the code has it. The test on a probe's result is total: it reads the
  first two dot-separated fields of the trimmed output and nothing else. A candidate is
  accepted exactly when its probe exits with status 0, its output is not empty, the
  trimmed output has at least two fields, the first converts to the number 3 and the
  second to a number of at least 11; fields after the second are not looked at. So a
  candidate is rejected, and the loop goes on with the next one, when the output is
  empty, has no dot, has a first or second field that is no number, or is the banner
  \<^verbatim>\<open>Python 3.11\<close>; and no output is accepted unless its first two fields convert to
  3 and to at least 11.
\<close>

theorem probe_output_first_two_fields:
  "(accepts res \<longleftrightarrow>
      status res = Some 0 \<and>
      (\<exists>out f0 f1 others. stdout res = Some out \<and> out \<noteq> [] \<and>
         split_on CHR ''.'' (trim out) = f0 # f1 # others \<and>
         strict_eq_3 (Num (Number f0)) \<and> ge_11 (Num (Number f1)))) \<and>
   (stdout res = Some [] \<longrightarrow> \<not> accepts res) \<and>
   (stdout res = Some out \<and> split_on CHR ''.'' (trim out) = [f] \<longrightarrow> \<not> accepts res) \<and>
   (stdout res = Some out \<and> split_on CHR ''.'' (trim out) = f0 # f1 # others \<and>
      (Number f0 = NaN \<or> Number f1 = NaN) \<longrightarrow> \<not> accepts res) \<and>
   (stdout res = Some (''Python 3.11'' @ [CHR 0x0A]) \<longrightarrow> \<not> accepts res) \<and>
   (\<not> accepts (probe w c) \<longrightarrow> snd (find_loop w (c # rest)) = snd (find_loop w rest))"
proof (intro conjI impI)
  show "accepts res \<longleftrightarrow>
      status res = Some 0 \<and>
      (\<exists>out f0 f1 others. stdout res = Some out \<and> out \<noteq> [] \<and>
         split_on CHR ''.'' (trim out) = f0 # f1 # others \<and>
         strict_eq_3 (Num (Number f0)) \<and> ge_11 (Num (Number f1)))"
    by (simp add: accepts_iff version_ok_iff)
next
  assume "stdout res = Some []"
  then show "\<not> accepts res" by (simp add: accepts_iff)
next
  assume "stdout res = Some out \<and> split_on CHR ''.'' (trim out) = [f]"
  then show "\<not> accepts res" by (simp add: accepts_iff version_ok_iff)
next
  assume "stdout res = Some out \<and> split_on CHR ''.'' (trim out) = f0 # f1 # others \<and>
      (Number f0 = NaN \<or> Number f1 = NaN)"
  then show "\<not> accepts res" by (auto simp: accepts_iff version_ok_iff)
next
  assume "stdout res = Some (''Python 3.11'' @ [CHR 0x0A])"
  then show "\<not> accepts res" using banner_rejected by (simp add: accepts_iff)
next
  assume "\<not> accepts (probe w c)"
  then show "snd (find_loop w (c # rest)) = snd (find_loop w rest)"
    by (simp split: prod.splits)
qed

theorem probe_output_first_two_fields_witness:
  "stdout (probe world_banner ''python3.12'') = Some (''Python 3.11'' @ [CHR 0x0A]) \<and>
   split_on CHR ''.'' (trim (''Python 3.11'' @ [CHR 0x0A])) = [''Python 3'', ''11''] \<and>
   Number ''Python 3'' = NaN \<and>
   \<not> accepts (probe world_banner ''python3.12'') \<and>
   snd (find_loop world_banner [''python3.12'', ''python3.11'', ''python3'', ''python'']) =
     snd (find_loop world_banner [''python3.11'', ''python3'', ''python'']) \<and>
   snd (findPython311Plus world_banner) = Some ''python3.11''"
proof -
  have out: "stdout (probe world_banner ''python3.12'') = Some (''Python 3.11'' @ [CHR 0x0A])"
    by (simp add: world_banner_def world_simps)
  have fields: "split_on CHR ''.'' (trim (''Python 3.11'' @ [CHR 0x0A])) = [''Python 3'', ''11'']"
    by (simp add: trim_def is_ws_def)
  have nan: "Number ''Python 3'' = NaN"
    by (simp add: number_simps)
  note t = probe_output_first_two_fields
    [of "probe world_banner ''python3.12''" "''Python 3.11'' @ [CHR 0x0A]" _ "''Python 3''" "''11''" "[]"
        world_banner "''python3.12''" "[''python3.11'', ''python3'', ''python'']"]
  from t out fields nan have rej: "\<not> accepts (probe world_banner ''python3.12'')"
    by blast
  with t have skip:
    "snd (find_loop world_banner [''python3.12'', ''python3.11'', ''python3'', ''python'']) =
     snd (find_loop world_banner [''python3.11'', ''python3'', ''python''])"
    by blast
  have res: "snd (findPython311Plus world_banner) = Some ''python3.11''"
    by (simp add: world_banner_def world_simps)
  from out fields nan rej skip res show ?thesis by simp
qed

text \<open>
  Claim C10 as stated fails: the output \<^verbatim>\<open>3.11.zzz\<close> is not two dot-separated numbers
  (it has three fields, and the third converts to \<^verbatim>\<open>NaN\<close>), yet the candidate that
  prints it is accepted and returned.
\<close>

theorem three_field_output_accepted:
  "stdout (probe world_three_fields ''python3.12'') = Some (''3.11.zzz'' @ [CHR 0x0A]) \<and>
   split_on CHR ''.'' (trim (''3.11.zzz'' @ [CHR 0x0A])) = [''3'', ''11'', ''zzz''] \<and>
   Number ''zzz'' = NaN \<and>
   accepts (probe world_three_fields ''python3.12'') \<and>
   snd (findPython311Plus world_three_fields) = Some ''python3.12''"
proof -
  have "stdout (probe world_three_fields ''python3.12'') = Some (''3.11.zzz'' @ [CHR 0x0A])"
    by (simp add: world_three_fields_def world_simps)
  moreover have "split_on CHR ''.'' (trim (''3.11.zzz'' @ [CHR 0x0A])) = [''3'', ''11'', ''zzz'']"
    by (simp add: trim_def is_ws_def)
  moreover have "Number ''zzz'' = NaN"
    by (simp add: number_simps)
  moreover have "accepts (probe world_three_fields ''python3.12'')"
    by (simp add: world_three_fields_def world_simps)
  moreover have "snd (findPython311Plus world_three_fields) = Some ''python3.12''"
    by (simp add: world_three_fields_def world_simps)
  ultimately show ?thesis by simp
qed

section \<open>Provisioning\<close>

text \<open>
  Claim C4. When the creation step runs (its child process is among the events of the
  run) and that child exits with a status \<open>s\<close> other than 0, the provisioner exits with
  the same status \<open>s\<close>, and neither the upgrade step nor the install step is run.
\<close>

theorem create_failure_status_is_propagated:
  assumes "snd (findPython311Plus w) = Some py"
    and "create_event w py \<in> set (fst (main w))"
    and "status (spawnSync w (create_cmd py) (create_args w py)) = Some s"
    and "s \<noteq> 0"
  shows "snd (main w) = Exited s \<and>
         upgrade_event w \<notin> set (fst (main w)) \<and>
         install_event w \<notin> set (fst (main w))"
proof -
  from assms(1,2) have dir: "snd (ensureDir w (VENDOR w))"
    and "create_event w py \<in> set (fst (main_venv w py))"
    by (simp_all add: create_event_def Run_in_main_found)
  then have absent: "\<not> existsSync w (VENV w)"
    by (simp add: create_in_main_venv)
  from assms(3,4) have st: "run w (create_cmd py) (create_args w py) = s"
    by (simp add: run_def)
  with assms(4) have nz: "run w (create_cmd py) (create_args w py) \<noteq> 0" by simp
  from assms(1) dir have "snd (main w) = snd (main_venv w py)"
    by (simp add: main_found)
  with absent nz st have "snd (main w) = Exited s"
    by (simp add: main_venv_create_failed)
  moreover from assms(1) absent nz have "upgrade_event w \<notin> set (fst (main w))"
    by (simp add: upgrade_event_def Run_in_main_found)
       (simp add: upgrade_in_main_venv [unfolded upgrade_event_def])
  moreover from assms(1) absent nz have "install_event w \<notin> set (fst (main w))"
    by (simp add: install_event_def Run_in_main_found)
       (simp add: install_in_main_venv [unfolded install_event_def])
  ultimately show ?thesis by simp
qed

theorem create_failure_status_is_propagated_witness:
  "snd (findPython311Plus world_create_fails) = Some ''python3.12'' \<and>
   create_event world_create_fails ''python3.12'' \<in> set (fst (main world_create_fails)) \<and>
   status (spawnSync world_create_fails (create_cmd ''python3.12'')
     (create_args world_create_fails ''python3.12'')) = Some 7 \<and>
   snd (main world_create_fails) = Exited 7 \<and>
   upgrade_event world_create_fails \<notin> set (fst (main world_create_fails)) \<and>
   install_event world_create_fails \<notin> set (fst (main world_create_fails))"
proof -
  have found: "snd (findPython311Plus world_create_fails) = Some ''python3.12''"
    by (simp add: world_create_fails_def provision_world_def world_simps)
  have ev: "create_event world_create_fails ''python3.12'' =
      Run ''python3.12'' [''-m'', ''venv'', ''/opt/rql-py/vendor/venv''] None"
    by (simp add: world_create_fails_def provision_simps)
  have runs: "create_event world_create_fails ''python3.12'' \<in> set (fst (main world_create_fails))"
    by (simp add: ev main_world_create_fails)
  have st: "status (spawnSync world_create_fails (create_cmd ''python3.12'')
     (create_args world_create_fails ''python3.12'')) = Some 7"
    by (simp add: world_create_fails_def provision_simps)
  have nz: "(7::int) \<noteq> 0" by simp
  from create_failure_status_is_propagated [OF found runs st nz] found runs st
  show ?thesis by simp
qed

text \<open>
  Claim C5, as the code has it. When an interpreter is found, the environment directory
  exists already, and the vendor directory that holds it exists or can be created, then
  no creation child is run (the creation step is the only child run without a working
  directory), the upgrade step is run, and the install step is run exactly when the
  upgrade step has returned 0.
\<close>

theorem existing_environment_skips_creation:
  assumes "snd (findPython311Plus w) = Some py"
    and "existsSync w (VENV w)"
    and "snd (ensureDir w (VENDOR w))"
  shows "(\<forall>cmd args. Run cmd args None \<notin> set (fst (main w))) \<and>
         upgrade_event w \<in> set (fst (main w)) \<and>
         (install_event w \<in> set (fst (main w)) \<longleftrightarrow> run w (venvPython w) upgrade_args = 0)"
proof -
  from assms have tr: "fst (main w) =
      fst (findPython311Plus w) @ fst (ensureDir w (VENDOR w)) @ fst (main_install w)"
    by (simp add: main_found main_venv_present)
  have "\<forall>cmd args. Run cmd args None \<notin> set (fst (main w))"
    by (simp add: tr Run_not_probe Run_not_ensureDir no_cwd_in_main_install)
  moreover have "upgrade_event w \<in> set (fst (main w))"
    by (simp add: tr upgrade_in_main_install)
  moreover have "install_event w \<in> set (fst (main w)) \<longleftrightarrow> run w (venvPython w) upgrade_args = 0"
    using install_in_main_install [of w]
    by (simp add: tr) (simp add: install_event_def Run_not_probe Run_not_ensureDir)
  ultimately show ?thesis by simp
qed

theorem existing_environment_skips_creation_witness:
  "snd (findPython311Plus world_rerun) = Some ''python3.12'' \<and>
   existsSync world_rerun (VENV world_rerun) \<and>
   snd (ensureDir world_rerun (VENDOR world_rerun)) \<and>
   (\<forall>cmd args. Run cmd args None \<notin> set (fst (main world_rerun))) \<and>
   upgrade_event world_rerun \<in> set (fst (main world_rerun)) \<and>
   run world_rerun (venvPython world_rerun) upgrade_args = 0 \<and>
   install_event world_rerun \<in> set (fst (main world_rerun))"
proof -
  have found: "snd (findPython311Plus world_rerun) = Some ''python3.12''"
    by (simp add: world_rerun_def provision_world_def world_simps)
  have env: "existsSync world_rerun (VENV world_rerun)"
    by (simp add: world_rerun_def provision_world_def posix_world_def)
  have dir: "snd (ensureDir world_rerun (VENDOR world_rerun))"
    by (simp add: world_rerun_def provision_world_def posix_world_def ensureDir_def)
  have up: "run world_rerun (venvPython world_rerun) upgrade_args = 0"
    by (simp add: world_rerun_def provision_simps)
  from existing_environment_skips_creation [OF found env dir] found env dir up
  show ?thesis by simp
qed

text \<open>
  Claim C5 as stated fails: with the environment directory present and an upgrade step
  that exits with status 1, the provisioner exits after the upgrade step and the install
  step is not run.
\<close>

theorem install_not_run_after_failed_upgrade:
  "snd (findPython311Plus world_rerun_upgrade_fails) = Some ''python3.12'' \<and>
   existsSync world_rerun_upgrade_fails (VENV world_rerun_upgrade_fails) \<and>
   main world_rerun_upgrade_fails =
     ([Capture ''python3.12'' [''-c'', probe_script],
       ConsoleLog ''[rql-py] Upgrading pip/setuptools/wheel...'',
       upgrade_event world_rerun_upgrade_fails,
       ConsoleError ''[rql-py] Failed to upgrade pip toolchain.''],
      Exited 1) \<and>
   install_event world_rerun_upgrade_fails \<notin> set (fst (main world_rerun_upgrade_fails))"
proof -
  have "snd (findPython311Plus world_rerun_upgrade_fails) = Some ''python3.12''"
    by (simp add: world_rerun_upgrade_fails_def provision_world_def world_simps)
  moreover have "existsSync world_rerun_upgrade_fails (VENV world_rerun_upgrade_fails)"
    by (simp add: world_rerun_upgrade_fails_def provision_world_def posix_world_def)
  moreover have m: "main world_rerun_upgrade_fails =
     ([Capture ''python3.12'' [''-c'', probe_script],
       ConsoleLog ''[rql-py] Upgrading pip/setuptools/wheel...'',
       upgrade_event world_rerun_upgrade_fails,
       ConsoleError ''[rql-py] Failed to upgrade pip toolchain.''],
      Exited 1)"
    by (simp add: world_rerun_upgrade_fails_def provision_simps)
  moreover have "install_event world_rerun_upgrade_fails \<notin> set (fst (main world_rerun_upgrade_fails))"
    by (simp add: m) (simp add: install_event_def upgrade_event_def install_args_def upgrade_args_def)
  ultimately show ?thesis by simp
qed

text \<open>
  Claim C9. When no interpreter is found, the provisioner exits with status 1. When the
  upgrade step runs and fails (its child exits with a status other than 0, or cannot be
  started), the provisioner exits with status 1 and the install step is not run. When the
  install step runs and fails in the same way, the provisioner exits with status 1. When
  the install step runs, which it does only after every step before it has succeeded,
  and its child exits with status 0, the provisioner exits with status 0.
\<close>

theorem provisioner_exit_statuses:
  "(snd (findPython311Plus w) = None \<longrightarrow> snd (main w) = Exited 1) \<and>
   (upgrade_event w \<in> set (fst (main w)) \<and>
    ((\<exists>s. status (spawnSync w (venvPython w) upgrade_args) = Some s \<and> s \<noteq> 0) \<or>
     (status (spawnSync w (venvPython w) upgrade_args) = None \<and>
      error (spawnSync w (venvPython w) upgrade_args))) \<longrightarrow>
    snd (main w) = Exited 1 \<and> install_event w \<notin> set (fst (main w))) \<and>
   (install_event w \<in> set (fst (main w)) \<and>
    ((\<exists>s. status (spawnSync w (venvPython w) install_args) = Some s \<and> s \<noteq> 0) \<or>
     (status (spawnSync w (venvPython w) install_args) = None \<and>
      error (spawnSync w (venvPython w) install_args))) \<longrightarrow>
    snd (main w) = Exited 1) \<and>
   (install_event w \<in> set (fst (main w)) \<and>
    status (spawnSync w (venvPython w) install_args) = Some 0 \<longrightarrow>
    snd (main w) = Exited 0)"
proof (intro conjI impI)
  assume "snd (findPython311Plus w) = None"
  then show "snd (main w) = Exited 1" by (simp add: main_not_found)
next
  assume a: "upgrade_event w \<in> set (fst (main w)) \<and>
    ((\<exists>s. status (spawnSync w (venvPython w) upgrade_args) = Some s \<and> s \<noteq> 0) \<or>
     (status (spawnSync w (venvPython w) upgrade_args) = None \<and>
      error (spawnSync w (venvPython w) upgrade_args)))"
  then have nz: "run w (venvPython w) upgrade_args \<noteq> 0"
    by (simp add: run_nonzero_iff)
  from a have "snd (main w) = snd (main_install w)"
    by (simp add: snd_main_after_upgrade)
  with nz show "snd (main w) = Exited 1" by (simp add: snd_main_install)
  from a nz show "install_event w \<notin> set (fst (main w))"
    by (simp add: install_after_failed_upgrade)
next
  assume a: "install_event w \<in> set (fst (main w)) \<and>
    ((\<exists>s. status (spawnSync w (venvPython w) install_args) = Some s \<and> s \<noteq> 0) \<or>
     (status (spawnSync w (venvPython w) install_args) = None \<and>
      error (spawnSync w (venvPython w) install_args)))"
  then have nz: "run w (venvPython w) install_args \<noteq> 0"
    by (simp add: run_nonzero_iff)
  from a have "upgrade_event w \<in> set (fst (main w))"
    by (simp add: install_needs_upgrade)
  then have "snd (main w) = snd (main_install w)"
    by (rule snd_main_after_upgrade)
  with nz show "snd (main w) = Exited 1" by (simp add: snd_main_install)
next
  assume a: "install_event w \<in> set (fst (main w)) \<and>
    status (spawnSync w (venvPython w) install_args) = Some 0"
  then have z: "run w (venvPython w) install_args = 0"
    by (simp add: run_def)
  from a have up: "upgrade_event w \<in> set (fst (main w)) \<and> run w (venvPython w) upgrade_args = 0"
    by (simp add: install_needs_upgrade)
  then have "snd (main w) = snd (main_install w)"
    by (simp add: snd_main_after_upgrade)
  with z up show "snd (main w) = Exited 0" by (simp add: snd_main_install)
qed


theorem provisioner_exit_statuses_witness:
  "snd (findPython311Plus world_no_python) = None \<and>
   snd (main world_no_python) = Exited 1 \<and>
   upgrade_event world_upgrade_not_started \<in> set (fst (main world_upgrade_not_started)) \<and>
   status (spawnSync world_upgrade_not_started (venvPython world_upgrade_not_started)
     upgrade_args) = None \<and>
   error (spawnSync world_upgrade_not_started (venvPython world_upgrade_not_started)
     upgrade_args) \<and>
   snd (main world_upgrade_not_started) = Exited 1 \<and>
   install_event world_upgrade_not_started \<notin> set (fst (main world_upgrade_not_started)) \<and>
   install_event world_install_fails \<in> set (fst (main world_install_fails)) \<and>
   status (spawnSync world_install_fails (venvPython world_install_fails) install_args) =
     Some 2 \<and>
   snd (main world_install_fails) = Exited 1 \<and>
   install_event world_rerun \<in> set (fst (main world_rerun)) \<and>
   status (spawnSync world_rerun (venvPython world_rerun) install_args) = Some 0 \<and>
   snd (main world_rerun) = Exited 0"
proof -
  have none: "snd (findPython311Plus world_no_python) = None"
    by (simp add: world_no_python_def world_simps)
  have up_ev: "upgrade_event world_upgrade_not_started \<in> set (fst (main world_upgrade_not_started))"
    by (simp add: main_world_upgrade_not_started)
       (simp add: world_upgrade_not_started_def provision_simps)
  have up_st: "status (spawnSync world_upgrade_not_started (venvPython world_upgrade_not_started)
     upgrade_args) = None"
    and up_err: "error (spawnSync world_upgrade_not_started (venvPython world_upgrade_not_started)
     upgrade_args)"
    by (simp_all add: world_upgrade_not_started_def provision_simps)
  have in_ev: "install_event world_install_fails \<in> set (fst (main world_install_fails))"
    by (simp add: main_world_install_fails)
       (simp add: world_install_fails_def provision_simps)
  have in_st: "status (spawnSync world_install_fails (venvPython world_install_fails)
     install_args) = Some 2"
    by (simp add: world_install_fails_def provision_simps)
  have ok_ev: "install_event world_rerun \<in> set (fst (main world_rerun))"
    by (simp add: main_world_rerun) (simp add: world_rerun_def provision_simps)
  have ok_st: "status (spawnSync world_rerun (venvPython world_rerun) install_args) = Some 0"
    by (simp add: world_rerun_def provision_simps)
  from provisioner_exit_statuses [of world_no_python] none
  have r1: "snd (main world_no_python) = Exited 1" by blast
  from provisioner_exit_statuses [of world_upgrade_not_started] up_ev up_st up_err
  have r2: "snd (main world_upgrade_not_started) = Exited 1 \<and>
      install_event world_upgrade_not_started \<notin> set (fst (main world_upgrade_not_started))"
    by blast
  from provisioner_exit_statuses [of world_install_fails] in_ev in_st
  have r3: "snd (main world_install_fails) = Exited 1" by simp
  from provisioner_exit_statuses [of world_rerun] ok_ev ok_st
  have r4: "snd (main world_rerun) = Exited 0" by blast
  from none up_ev up_st up_err in_ev in_st ok_ev ok_st r1 r2 r3 r4 show ?thesis by simp
qed

section \<open>Launching\<close>

text \<open>
  Claim C2. The only child the launcher starts is the interpreter of the environment, and
  its argument vector is \<^verbatim>\<open>-m\<close>, \<^verbatim>\<open>rql\<close> and then the launcher's own arguments
  (\<^verbatim>\<open>process.argv\<close> without its first two entries), in their order, all of them and
  nothing else. It is started whenever the interpreter of the environment exists. Called
  with \<^verbatim>\<open>run script.rql -v\<close>, the launcher starts it with
  \<^verbatim>\<open>-m rql run script.rql -v\<close>.
\<close>

theorem launcher_forwards_arguments:
  "(existsSync w (venvPython w) \<longrightarrow>
      Spawn (venvPython w) (''-m'' # ''rql'' # drop 2 (argv w)) \<in> set (fst (launcher w))) \<and>
   (\<forall>cmd args. Spawn cmd args \<in> set (fst (launcher w)) \<longrightarrow>
      cmd = venvPython w \<and> args = ''-m'' # ''rql'' # drop 2 (argv w)) \<and>
   (existsSync w (venvPython w) \<and> argv w = [node, script, ''run'', ''script.rql'', ''-v''] \<longrightarrow>
      Spawn (venvPython w) [''-m'', ''rql'', ''run'', ''script.rql'', ''-v'']
        \<in> set (fst (launcher w)))"
  by (simp add: Spawn_in_launcher launcher_args_def)

theorem launcher_forwards_arguments_witness:
  "existsSync world_launch_run (venvPython world_launch_run) \<and>
   argv world_launch_run =
     [''/usr/bin/node'', ''/opt/rql-py/bin/rql.js'', ''run'', ''script.rql'', ''-v''] \<and>
   fst (launcher world_launch_run) =
     [Spawn ''/opt/rql-py/vendor/venv/bin/python'' [''-m'', ''rql'', ''run'', ''script.rql'', ''-v'']] \<and>
   Spawn (venvPython world_launch_run) [''-m'', ''rql'', ''run'', ''script.rql'', ''-v'']
     \<in> set (fst (launcher world_launch_run))"
proof -
  have ex: "existsSync world_launch_run (venvPython world_launch_run)"
    by (simp add: world_launch_run_def launch_def)
  have av: "argv world_launch_run =
     [''/usr/bin/node'', ''/opt/rql-py/bin/rql.js'', ''run'', ''script.rql'', ''-v'']"
    by (simp add: world_launch_run_def launch_def example_argv_def)
  have tr: "fst (launcher world_launch_run) =
     [Spawn ''/opt/rql-py/vendor/venv/bin/python'' [''-m'', ''rql'', ''run'', ''script.rql'', ''-v'']]"
    by (simp add: world_launch_run_def launch_simps)
  from launcher_forwards_arguments
    [of world_launch_run "''/usr/bin/node''" "''/opt/rql-py/bin/rql.js''"] ex av
  have "Spawn (venvPython world_launch_run) [''-m'', ''rql'', ''run'', ''script.rql'', ''-v'']
     \<in> set (fst (launcher world_launch_run))"
    by blast
  with ex av tr show ?thesis by simp
qed

text \<open>
  Claim C6. When the interpreter of the environment does not exist, the launcher prints
  its two lines on the error stream, the second of which tells how to reinstall, exits
  with status 1, and starts no child. The path it looks at is
  \<^verbatim>\<open>vendor/venv/bin/python\<close> under the root, and on Windows
  \<^verbatim>\<open>vendor\<close>, \<^verbatim>\<open>venv\<close>, \<^verbatim>\<open>Scripts\<close>, \<^verbatim>\<open>python.exe\<close> joined by backslashes.
\<close>

theorem launcher_missing_interpreter:
  "(\<not> existsSync w (venvPython w) \<longrightarrow>
      snd (launcher w) = Exited 1 \<and>
      fst (launcher w) =
        [ConsoleError ''[rql-py] Python venv not found. Was the postinstall step blocked?'',
         ConsoleError ''[rql-py] Try reinstalling: npm rebuild -g rql-py''] \<and>
      (\<forall>cmd args. Spawn cmd args \<notin> set (fst (launcher w)))) \<and>
   (\<not> win32 w \<longrightarrow>
      venvPython w = path_join False (ROOT w) ''vendor'' @ ''/venv/bin/python'') \<and>
   (win32 w \<longrightarrow>
      venvPython w =
        path_join True (ROOT w) ''vendor'' @
        [CHR 0x5C] @ ''venv'' @ [CHR 0x5C] @ ''Scripts'' @ [CHR 0x5C] @ ''python.exe'')"
  by (simp add: launcher_def fail_def venvPython_def VENV_def VENDOR_def)
     (simp add: path_join_def sep_def)

theorem launcher_missing_interpreter_witness:
  "venvPython world_launch_missing = ''/opt/rql-py/vendor/venv/bin/python'' \<and>
   \<not> existsSync world_launch_missing (venvPython world_launch_missing) \<and>
   snd (launcher world_launch_missing) = Exited 1 \<and>
   (\<forall>cmd args. Spawn cmd args \<notin> set (fst (launcher world_launch_missing))) \<and>
   win32 world_launch_missing_win \<and>
   venvPython world_launch_missing_win =
     ''C:'' @ [CHR 0x5C] @ ''rql-py'' @ [CHR 0x5C] @ ''vendor'' @ [CHR 0x5C] @ ''venv'' @
     [CHR 0x5C] @ ''Scripts'' @ [CHR 0x5C] @ ''python.exe'' \<and>
   \<not> existsSync world_launch_missing_win (venvPython world_launch_missing_win) \<and>
   snd (launcher world_launch_missing_win) = Exited 1"
proof -
  have nw: "\<not> win32 world_launch_missing"
    and root: "ROOT world_launch_missing = ''/opt/rql-py''"
    and ne: "\<not> existsSync world_launch_missing (venvPython world_launch_missing)"
    by (simp_all add: world_launch_missing_def launch_def)
  have w: "win32 world_launch_missing_win"
    and wroot: "ROOT world_launch_missing_win = ''C:'' @ [CHR 0x5C] @ ''rql-py''"
    and wne: "\<not> existsSync world_launch_missing_win (venvPython world_launch_missing_win)"
    by (simp_all add: world_launch_missing_win_def launch_def)
  note t1 = launcher_missing_interpreter [of world_launch_missing]
  note t2 = launcher_missing_interpreter [of world_launch_missing_win]
  from t1 nw root have p1: "venvPython world_launch_missing = ''/opt/rql-py/vendor/venv/bin/python''"
    by (simp add: path_join_def sep_def)
  from t1 ne have r1: "snd (launcher world_launch_missing) = Exited 1 \<and>
      (\<forall>cmd args. Spawn cmd args \<notin> set (fst (launcher world_launch_missing)))"
    by blast
  from t2 w wroot have p2: "venvPython world_launch_missing_win =
     ''C:'' @ [CHR 0x5C] @ ''rql-py'' @ [CHR 0x5C] @ ''vendor'' @ [CHR 0x5C] @ ''venv'' @
     [CHR 0x5C] @ ''Scripts'' @ [CHR 0x5C] @ ''python.exe''"
    by (simp add: path_join_def sep_def)
  from t2 wne have r2: "snd (launcher world_launch_missing_win) = Exited 1"
    by blast
  from p1 ne r1 w p2 wne r2 show ?thesis by blast
qed

text \<open>
  Claim C8. When the child has been started and ends without a signal, the launcher exits
  with the child's exit code, and with 0 when the child has no exit code.
\<close>

theorem launcher_exit_code:
  assumes "existsSync w (venvPython w)" and "child w = ChildExit code None"
  shows "snd (launcher w) = Exited (case code of None \<Rightarrow> 0 | Some c \<Rightarrow> c) \<and>
         fst (launcher w) = [Spawn (venvPython w) (launcher_args (argv w))]"
  using assms by (simp add: launcher_def on_exit_def)

theorem launcher_exit_code_witness:
  "existsSync world_launch_run (venvPython world_launch_run) \<and>
   child world_launch_run = ChildExit (Some 3) None \<and>
   snd (launcher world_launch_run) = Exited 3 \<and>
   existsSync world_launch_no_code (venvPython world_launch_no_code) \<and>
   child world_launch_no_code = ChildExit None None \<and>
   snd (launcher world_launch_no_code) = Exited 0"
proof -
  have e1: "existsSync world_launch_run (venvPython world_launch_run)"
    and c1: "child world_launch_run = ChildExit (Some 3) None"
    by (simp_all add: world_launch_run_def launch_def)
  have e2: "existsSync world_launch_no_code (venvPython world_launch_no_code)"
    and c2: "child world_launch_no_code = ChildExit None None"
    by (simp_all add: world_launch_no_code_def launch_def)
  from launcher_exit_code [OF e1 c1] launcher_exit_code [OF e2 c2] e1 c1 e2 c2
  show ?thesis by simp
qed

text \<open>
  Claim C3. The handler of the child's \<^verbatim>\<open>exit\<close> event is written to do what the claim
  says: when the child was ended by \<^verbatim>\<open>SIGTERM\<close>, the launcher sends \<^verbatim>\<open>SIGTERM\<close> to
  itself and dies by it. It misses the case in which the signal it sends to itself does
  not end it, and then falls through to \<^verbatim>\<open>process.exit(code ?? 0)\<close>: when the child was
  ended by \<^verbatim>\<open>SIGPIPE\<close>, which Node.js ignores, the launcher, called as
  \<^verbatim>\<open>rql run script.rql -v\<close>, sends \<^verbatim>\<open>SIGPIPE\<close> to itself, lives on, and exits with
  status 0, the child having no exit code. The claim does not hold of the code there.
\<close>

theorem launcher_exits_0_after_ignored_signal:
  "existsSync world_launch_sigterm (venvPython world_launch_sigterm) \<and>
   child world_launch_sigterm = ChildExit None (Some ''SIGTERM'') \<and>
   kill_fatal world_launch_sigterm ''SIGTERM'' \<and>
   launcher world_launch_sigterm =
     ([Spawn ''/opt/rql-py/vendor/venv/bin/python'' [''-m'', ''rql'', ''run'', ''script.rql'', ''-v''],
       Kill ''SIGTERM''],
      KilledBy ''SIGTERM'') \<and>
   existsSync world_launch_sigpipe (venvPython world_launch_sigpipe) \<and>
   child world_launch_sigpipe = ChildExit None (Some ''SIGPIPE'') \<and>
   \<not> kill_fatal world_launch_sigpipe ''SIGPIPE'' \<and>
   launcher world_launch_sigpipe =
     ([Spawn ''/opt/rql-py/vendor/venv/bin/python'' [''-m'', ''rql'', ''run'', ''script.rql'', ''-v''],
       Kill ''SIGPIPE''],
      Exited 0)"
  by (simp add: world_launch_sigterm_def world_launch_sigpipe_def launch_simps)

end
